theory Spec2Isabelle
  imports Complex_Main "HOL-Library.Word"
begin

section \<open>JavaScript values used by the gateways\<close>

text \<open>
  Text that the gateways compare, concatenate and cut at ASCII characters (paths,
  commands, header values, session ids) is a \<open>string\<close>, the bytes of its UTF-8 form;
  the child's output, which the gateways decode themselves, is a sequence of UTF-16
  code units (see the line framer).

  JSON values as \<^verbatim>\<open>JSON.parse\<close> produces them. Numbers are finite doubles; the
  gateways only compare them for equality and test them for zero, so they are modelled
  as rationals. An object is the list of its own properties.
\<close>

datatype json =
    JNull
  | JBool bool
  | JNum rat
  | JStr string
  | JArr "json list"
  | JObj "(string \<times> json) list"

text \<open>Truthiness of a value in a condition (\<^verbatim>\<open>if (v)\<close>, \<^verbatim>\<open>a && b\<close>, \<^verbatim>\<open>a || b\<close>).\<close>

fun js_truthy :: "json \<Rightarrow> bool" where
  "js_truthy JNull = False"
| "js_truthy (JBool b) = b"
| "js_truthy (JNum n) = (n \<noteq> 0)"
| "js_truthy (JStr s) = (s \<noteq> [])"
| "js_truthy (JArr _) = True"
| "js_truthy (JObj _) = True"

text \<open>
  Strict equality \<^verbatim>\<open>a === b\<close> of two values that come from different parses:
  primitives compare by value, objects and arrays by reference (so never equal here).
\<close>

fun js_strict_eq :: "json \<Rightarrow> json \<Rightarrow> bool" where
  "js_strict_eq JNull JNull = True"
| "js_strict_eq (JBool a) (JBool b) = (a = b)"
| "js_strict_eq (JNum a) (JNum b) = (a = b)"
| "js_strict_eq (JStr a) (JStr b) = (a = b)"
| "js_strict_eq _ _ = False"

text \<open>
  Reading a property \<^verbatim>\<open>v.k\<close>: a \<^verbatim>\<open>TypeError\<close> on \<^verbatim>\<open>null\<close>, \<^verbatim>\<open>undefined\<close> on a
  primitive, an array or an object without the property. Only names that no prototype
  defines are read this way (\<^verbatim>\<open>id\<close>, \<^verbatim>\<open>path\<close>, \<^verbatim>\<open>stdio\<close>, \<^verbatim>\<open>servers\<close>).
\<close>

datatype property = TypeError | Undefined | Val json

fun js_prop :: "json \<Rightarrow> string \<Rightarrow> property" where
  "js_prop JNull k = TypeError"
| "js_prop (JObj kvs) k = (case map_of kvs k of None \<Rightarrow> Undefined | Some v \<Rightarrow> Val v)"
| "js_prop _ k = Undefined"

text \<open>
  A plain object \<^verbatim>\<open>{}\<close> used as a table keyed by strings: \<^verbatim>\<open>table[k]\<close> finds the
  own property, and otherwise what \<^verbatim>\<open>Object.prototype\<close> defines under that name.
  The table keeps insertion order (\<^verbatim>\<open>Object.entries\<close>).
\<close>

definition object_prototype_keys :: "string list" where
  "object_prototype_keys =
     [''constructor'', ''hasOwnProperty'', ''isPrototypeOf'', ''propertyIsEnumerable'',
      ''toLocaleString'', ''toString'', ''valueOf'', ''__proto__'',
      ''__defineGetter__'', ''__defineSetter__'', ''__lookupGetter__'', ''__lookupSetter__'']"

datatype 'v lookup = Own 'v | Inherited | Missing

definition js_get :: "(string \<times> 'v) list \<Rightarrow> string \<Rightarrow> 'v lookup" where
  "js_get tbl k =
     (case map_of tbl k of
        Some v \<Rightarrow> Own v
      | None \<Rightarrow> if k \<in> set object_prototype_keys then Inherited else Missing)"

text \<open>\<^verbatim>\<open>table[k] = v\<close>: an existing key keeps its place, a new one goes last.\<close>

definition js_set :: "(string \<times> 'v) list \<Rightarrow> string \<Rightarrow> 'v \<Rightarrow> (string \<times> 'v) list" where
  "js_set tbl k v =
     (if k \<in> fst ` set tbl then map (\<lambda>(k', v'). if k' = k then (k', v) else (k', v')) tbl
      else tbl @ [(k, v)])"

text \<open>\<^verbatim>\<open>delete table[k]\<close>.\<close>

definition js_delete :: "(string \<times> 'v) list \<Rightarrow> string \<Rightarrow> (string \<times> 'v) list" where
  "js_delete tbl k = filter (\<lambda>(k', _). k' \<noteq> k) tbl"

section \<open>Path composition\<close>

text \<open>
  \<^verbatim>\<open>base.replace(/\/$/, '')\<close>: the pattern matches a slash only at the very end of the
  input, and \<^verbatim>\<open>replace\<close> with a non-global pattern rewrites the first match.
\<close>

fun replace_trailing_slash :: "string \<Rightarrow> string" where
  "replace_trailing_slash [] = []"
| "replace_trailing_slash [c] = (if c = CHR ''/'' then [] else [c])"
| "replace_trailing_slash (c # d # cs) = c # replace_trailing_slash (d # cs)"

text \<open>\<^verbatim>\<open>suffix.startsWith('/')\<close>.\<close>

fun startsWith_slash :: "string \<Rightarrow> bool" where
  "startsWith_slash [] = False"
| "startsWith_slash (c # _) = (c = CHR ''/'')"

text \<open>
  \<^verbatim>\<open>joinPath\<close>, the same in all four gateways. The last line is
  \<^verbatim>\<open>`${normalizedBase}${normalizedSuffix}` || '/'\<close>: the empty string is falsy.
\<close>

definition joinPath :: "string \<Rightarrow> string \<Rightarrow> string" where
  "joinPath base suffix =
     (let normalizedBase = (if base = ''/'' then [] else replace_trailing_slash base);
          normalizedSuffix = (if startsWith_slash suffix then suffix else ''/'' @ suffix);
          joined = normalizedBase @ normalizedSuffix
      in if joined = [] then ''/'' else joined)"

text \<open>The path router as the specification words it.\<close>

definition spec_normalize :: "string \<Rightarrow> string" where
  "spec_normalize P =
     (if P = ''/'' then [] else if P \<noteq> [] \<and> last P = CHR ''/'' then butlast P else P)"

definition spec_ensureLeading :: "string \<Rightarrow> string" where
  "spec_ensureLeading S = (if S \<noteq> [] \<and> hd S = CHR ''/'' then S else CHR ''/'' # S)"

definition spec_fullPath :: "string \<Rightarrow> string \<Rightarrow> string" where
  "spec_fullPath P S =
     (let r = spec_normalize P @ spec_ensureLeading S in if r = [] then ''/'' else r)"

section \<open>Bindings, arguments and the route table\<close>

text \<open>\<^verbatim>\<open>MultiStdioServerConfig\<close>: one binding of a path prefix to a child command.\<close>

record server_config =
  path :: string
  stdioCmd :: string

text \<open>\<^verbatim>\<open>serverConfig.path || '/'\<close>.\<close>

definition binding_root :: "server_config \<Rightarrow> string" where
  "binding_root s = (if path s = [] then ''/'' else path s)"

text \<open>
  The argument records of the gateways, without the logger (logging is not modelled).
  \<open>corsOrigin\<close> is \<open>None\<close> when the value is falsy. The single-binding entry points
  take the same record with \<^verbatim>\<open>stdioCmd\<close> in place of \<^verbatim>\<open>servers\<close>; both are passed
  beside the record here, as \<^verbatim>\<open>const { stdioCmd, ...rest } = args\<close> splits them.
\<close>

record base_args =
  port :: nat
  corsOrigin :: "string option"
  healthEndpoints :: "string list"

record ws_args = base_args +
  ws_messagePath :: string

record headers_args = base_args +
  headers :: "(string \<times> string) list"

record sse_args = headers_args +
  baseUrl :: string
  ssePath :: string
  messagePath :: string

record http_args = headers_args +
  streamableHttpPath :: string

record stateful_args = http_args +
  sessionTimeout :: "int option"

record stateless_args = http_args +
  protocolVersion :: string

text \<open>
  What an entry point sets up on the Express application: the middleware and the routes
  in the order of registration, the children spawned at start-up, and the WebSocket
  endpoints. A route carries the handler registered for it.
\<close>

datatype http_method = GET | POST | DELETE | OtherMethod string

datatype handler =
    Health "(string \<times> string) list"
  | WsHealth
  | SseConnect nat
  | SseMessage nat
  | StatefulPost nat
  | StatefulSession nat
  | StatelessPost string string
  | MethodNotAllowed

datatype middleware = Cors string bool | JsonBody | JsonBodyUnless "string list"

record gateway =
  middlewares :: "middleware list"
  routes :: "(http_method \<times> string \<times> handler) list"
  children :: "string list"
  ws_endpoints :: "string list"

definition cors_middleware :: "string option \<Rightarrow> bool \<Rightarrow> middleware list" where
  "cors_middleware origin exposes_session_id =
     (case origin of None \<Rightarrow> [] | Some orig \<Rightarrow> [Cors orig exposes_session_id])"

definition multiStdioToSse :: "server_config list \<Rightarrow> 'a sse_args_scheme \<Rightarrow> gateway" where
  "multiStdioToSse servers args =
     \<lparr> middlewares = cors_middleware (corsOrigin args) False @
         [JsonBodyUnless (map (\<lambda>s. joinPath (binding_root s) (messagePath args)) servers)],
       routes = map (\<lambda>ep. (GET, ep, Health (headers args))) (healthEndpoints args) @
         concat (map (\<lambda>(i, s).
           [(GET, joinPath (binding_root s) (ssePath args), SseConnect i),
            (POST, joinPath (binding_root s) (messagePath args), SseMessage i)])
           (enumerate 0 servers)),
       children = map stdioCmd servers,
       ws_endpoints = [] \<rparr>"

definition multiStdioToWs :: "server_config list \<Rightarrow> 'a ws_args_scheme \<Rightarrow> gateway" where
  "multiStdioToWs servers args =
     \<lparr> middlewares = cors_middleware (corsOrigin args) False,
       routes = map (\<lambda>ep. (GET, ep, WsHealth)) (healthEndpoints args),
       children = map stdioCmd servers,
       ws_endpoints = map (\<lambda>s. joinPath (binding_root s) (ws_messagePath args)) servers \<rparr>"

definition multiStdioToStatefulStreamableHttp ::
  "server_config list \<Rightarrow> 'a stateful_args_scheme \<Rightarrow> gateway" where
  "multiStdioToStatefulStreamableHttp servers args =
     \<lparr> middlewares = JsonBody # cors_middleware (corsOrigin args) True,
       routes = map (\<lambda>ep. (GET, ep, Health (headers args))) (healthEndpoints args) @
         concat (map (\<lambda>(i, s).
           (let fullPath = joinPath (binding_root s) (streamableHttpPath args)
            in [(POST, fullPath, StatefulPost i),
                (GET, fullPath, StatefulSession i),
                (DELETE, fullPath, StatefulSession i)]))
           (enumerate 0 servers)),
       children = [],
       ws_endpoints = [] \<rparr>"

definition multiStdioToStatelessStreamableHttp ::
  "server_config list \<Rightarrow> 'a stateless_args_scheme \<Rightarrow> gateway" where
  "multiStdioToStatelessStreamableHttp servers args =
     \<lparr> middlewares = JsonBody # cors_middleware (corsOrigin args) False,
       routes = map (\<lambda>ep. (GET, ep, Health (headers args))) (healthEndpoints args) @
         concat (map (\<lambda>s.
           (let fullPath = joinPath (binding_root s) (streamableHttpPath args)
            in [(POST, fullPath, StatelessPost (stdioCmd s) fullPath),
                (GET, fullPath, MethodNotAllowed),
                (DELETE, fullPath, MethodNotAllowed)]))
           servers),
       children = [],
       ws_endpoints = [] \<rparr>"

text \<open>The single-binding entry points: the multi-server ones on one binding at the root.\<close>

definition stdioToSse :: "string \<Rightarrow> 'a sse_args_scheme \<Rightarrow> gateway" where
  "stdioToSse cmd rest = multiStdioToSse [\<lparr> path = ''/'', stdioCmd = cmd \<rparr>] rest"

definition stdioToWs :: "string \<Rightarrow> 'a ws_args_scheme \<Rightarrow> gateway" where
  "stdioToWs cmd rest = multiStdioToWs [\<lparr> path = ''/'', stdioCmd = cmd \<rparr>] rest"

definition stdioToStatefulStreamableHttp :: "string \<Rightarrow> 'a stateful_args_scheme \<Rightarrow> gateway" where
  "stdioToStatefulStreamableHttp cmd rest =
     multiStdioToStatefulStreamableHttp [\<lparr> path = ''/'', stdioCmd = cmd \<rparr>] rest"

definition stdioToStatelessStreamableHttp :: "string \<Rightarrow> 'a stateless_args_scheme \<Rightarrow> gateway" where
  "stdioToStatelessStreamableHttp cmd rest =
     multiStdioToStatelessStreamableHttp [\<lparr> path = ''/'', stdioCmd = cmd \<rparr>] rest"

text \<open>
  Routing of a request that has passed the middleware: the first route registered for
  the request's method whose path matches the request's path handles it (each handler
  here ends the response); with no such route the framework answers 404. Whether a
  route's path matches a request's path is decided by the router, a parameter here
  (\<open>matches route_path request_path\<close>): Express reads a route's path as a pattern.
\<close>

fun dispatch ::
  "(string \<Rightarrow> string \<Rightarrow> bool) \<Rightarrow> (http_method \<times> string \<times> handler) list \<Rightarrow> http_method \<Rightarrow>
   string \<Rightarrow> handler option" where
  "dispatch matches [] m p = None"
| "dispatch matches ((m', p', h) # rs) m p =
     (if m' = m \<and> matches p' p then Some h else dispatch matches rs m p)"

text \<open>
  The router's matching with the settings Express starts with, which the gateways never
  change, for a route path without pattern characters (ASCII letters, digits, slash,
  hyphen, underscore): the case of letters is ignored, and so is one slash at the end
  of either path. It is used in the worked examples.
\<close>

definition ascii_lower :: "char \<Rightarrow> char" where
  "ascii_lower c =
     (case map_of (zip ''ABCDEFGHIJKLMNOPQRSTUVWXYZ'' ''abcdefghijklmnopqrstuvwxyz'') c of
        None \<Rightarrow> c
      | Some l \<Rightarrow> l)"

definition express_match :: "string \<Rightarrow> string \<Rightarrow> bool" where
  "express_match route_path request_path =
     (let base = map ascii_lower
                   (if route_path \<noteq> [] \<and> last route_path = CHR ''/'' then butlast route_path
                    else route_path);
          requested = map ascii_lower request_path
      in requested = base \<or> requested = base @ ''/'')"

datatype body = Text string | Json json

text \<open>
  The outcome of a request: a response a handler writes itself, the request handed to a
  transport of the SDK (which then writes the response), an exception in the handler,
  no route for it, or the body refused by the JSON body parser before any route.
\<close>

datatype reply = Reply nat body | HandedTo nat | Threw | NotFound | BodyRefused

section \<open>The line framer\<close>

text \<open>
  A chunk of the child's stdout is a \<^verbatim>\<open>Buffer\<close> of bytes; a JavaScript string is a
  sequence of UTF-16 code units. \<^verbatim>\<open>chunk.toString('utf8')\<close> decodes the chunk on its
  own: every maximal ill-formed part, and a sequence cut off by the end of the chunk,
  becomes one U+FFFD. The decoder is the platform's, modelled from its documentation
  (the WHATWG UTF-8 decoder without the byte order mark handling).
\<close>

type_synonym byte = "8 word"
type_synonym jsstring = "nat list"

text \<open>A byte met in the initial state: a code point, or the state after a lead byte
  (continuation bytes still needed, code point so far, bounds of the next byte).\<close>

definition utf8_lead :: "nat \<Rightarrow> nat + (nat \<times> nat \<times> nat \<times> nat)" where
  "utf8_lead b =
     (if b \<le> 0x7F then Inl b
      else if 0xC2 \<le> b \<and> b \<le> 0xDF then Inr (1, b mod 32, 0x80, 0xBF)
      else if 0xE0 \<le> b \<and> b \<le> 0xEF then
        Inr (2, b mod 16, if b = 0xE0 then 0xA0 else 0x80, if b = 0xED then 0x9F else 0xBF)
      else if 0xF0 \<le> b \<and> b \<le> 0xF4 then
        Inr (3, b mod 8, if b = 0xF0 then 0x90 else 0x80, if b = 0xF4 then 0x8F else 0xBF)
      else Inl 0xFFFD)"

fun utf8_dec :: "(nat \<times> nat \<times> nat \<times> nat) option \<Rightarrow> nat list \<Rightarrow> nat list" where
  "utf8_dec None [] = []"
| "utf8_dec (Some _) [] = [0xFFFD]"
| "utf8_dec None (b # bs) =
     (case utf8_lead b of
        Inl cp \<Rightarrow> cp # utf8_dec None bs
      | Inr st \<Rightarrow> utf8_dec (Some st) bs)"
| "utf8_dec (Some (need, cp, lo, hi)) (b # bs) =
     (if lo \<le> b \<and> b \<le> hi then
        (let cp' = cp * 64 + b mod 64
         in if need = 1 then cp' # utf8_dec None bs
            else utf8_dec (Some (need - 1, cp', 0x80, 0xBF)) bs)
      else 0xFFFD #
        (case utf8_lead b of
           Inl cp \<Rightarrow> cp # utf8_dec None bs
         | Inr st \<Rightarrow> utf8_dec (Some st) bs))"

definition utf16_units :: "nat \<Rightarrow> nat list" where
  "utf16_units cp =
     (if cp < 0x10000 then [cp]
      else [0xD800 + (cp - 0x10000) div 1024, 0xDC00 + (cp - 0x10000) mod 1024])"

definition toString_utf8 :: "byte list \<Rightarrow> jsstring" where
  "toString_utf8 chunk = concat (map utf16_units (utf8_dec None (map unat chunk)))"

definition LF :: nat where "LF = 10"
definition CR :: nat where "CR = 13"

text \<open>
  \<^verbatim>\<open>buffer.split(/\r?\n/)\<close>: the pieces between the matches, scanning from the left;
  a match is a line feed, or a carriage return directly followed by one. The result
  always has a last piece (the empty string splits into one empty piece).
\<close>

fun cons_first :: "nat \<Rightarrow> jsstring list \<Rightarrow> jsstring list" where
  "cons_first c [] = [[c]]"
| "cons_first c (l # ls) = (c # l) # ls"

fun split_lines :: "jsstring \<Rightarrow> jsstring list" where
  "split_lines [] = [[]]"
| "split_lines [c] = (if c = LF then [[], []] else [[c]])"
| "split_lines (c # d # cs) =
     (if c = LF then [] # split_lines (d # cs)
      else if c = CR \<and> d = LF then [] # split_lines cs
      else cons_first c (split_lines (d # cs)))"

text \<open>\<^verbatim>\<open>!line.trim()\<close>: the line holds nothing but white space and line terminators.\<close>

definition js_whitespace :: "nat \<Rightarrow> bool" where
  "js_whitespace c =
     (c \<in> {0x09, 0x0A, 0x0B, 0x0C, 0x0D, 0x20, 0xA0, 0x1680, 0x2028, 0x2029, 0x202F,
            0x205F, 0x3000, 0xFEFF} \<or> (0x2000 \<le> c \<and> c \<le> 0x200A))"

definition blank :: "jsstring \<Rightarrow> bool" where
  "blank line = list_all js_whitespace line"

text \<open>
  One \<^verbatim>\<open>data\<close> event, up to the point where the lines are handed out:
  \<^verbatim>\<open>buffer += chunk.toString('utf8'); lines = buffer.split(/\r?\n/); buffer = lines.pop() ?? ''\<close>.
  The result is the complete lines, in order, and the new buffer.
\<close>

definition stdout_data :: "jsstring \<Rightarrow> byte list \<Rightarrow> jsstring list \<times> jsstring" where
  "stdout_data buffer chunk =
     (let lines = split_lines (buffer @ toString_utf8 chunk)
      in if lines = [] then ([], []) else (butlast lines, last lines))"

text \<open>
  What \<^verbatim>\<open>lines.forEach\<close> does with one line: a blank line is skipped, a line that
  \<^verbatim>\<open>JSON.parse\<close> rejects is logged and dropped, any other is a message. The parser is
  the platform's and a parameter here (\<open>None\<close> when it throws).
\<close>

datatype 'm line_result = Ignored | NonJson | Message 'm

definition read_line :: "(jsstring \<Rightarrow> 'm option) \<Rightarrow> jsstring \<Rightarrow> 'm line_result" where
  "read_line parse line =
     (if blank line then Ignored
      else case parse line of None \<Rightarrow> NonJson | Some m \<Rightarrow> Message m)"

fun messages_of :: "'m line_result list \<Rightarrow> 'm list" where
  "messages_of [] = []"
| "messages_of (Message m # rs) = m # messages_of rs"
| "messages_of (_ # rs) = messages_of rs"

text \<open>A run of \<^verbatim>\<open>data\<close> events: the messages emitted, in order, and the final buffer.\<close>

fun stdout_stream ::
  "(jsstring \<Rightarrow> 'm option) \<Rightarrow> jsstring \<Rightarrow> byte list list \<Rightarrow> 'm list \<times> jsstring" where
  "stdout_stream parse buffer [] = ([], buffer)"
| "stdout_stream parse buffer (chunk # chunks) =
     (let (lines, buffer') = stdout_data buffer chunk;
          (ms, buffer'') = stdout_stream parse buffer' chunks
      in (messages_of (map (read_line parse) lines) @ ms, buffer''))"

text \<open>
  The byte stream of the round-trip property, after decoding: lines, each followed by
  its separator.
\<close>

definition separator :: "jsstring \<Rightarrow> bool" where
  "separator sep = (sep = [LF] \<or> sep = [CR, LF])"

fun wire_text :: "(jsstring \<times> jsstring) list \<Rightarrow> jsstring" where
  "wire_text [] = []"
| "wire_text ((line, sep) # rest) = line @ sep @ wire_text rest"

definition plain_line :: "jsstring \<Rightarrow> bool" where
  "plain_line line = (LF \<notin> set line \<and> CR \<notin> set line)"

section \<open>The SSE gateway at run time\<close>

text \<open>
  One binding of \<^verbatim>\<open>multiStdioToSse\<close>: its session table (session id to the number of
  the SSE transport), what has been written to the child's stdin (each message as one
  line, \<^verbatim>\<open>JSON.stringify(msg) + '\n'\<close>), the framer's buffer, and the messages sent to
  the sessions.
\<close>

record sse_binding =
  sessions :: "(string \<times> nat) list"
  sse_stdin :: "json list"
  sse_buffer :: jsstring
  sse_sent :: "(string \<times> json) list"

text \<open>
  The POST handler of the message path. \<open>sessionId\<close> is \<^verbatim>\<open>req.query.sessionId\<close>,
  \<open>None\<close> when the parameter is absent. A session found in the table always has a
  transport with \<^verbatim>\<open>handlePostMessage\<close>; what \<^verbatim>\<open>Object.prototype\<close> supplies under the
  name has no \<^verbatim>\<open>transport\<close>.
\<close>

definition sse_post_message :: "(string \<times> nat) list \<Rightarrow> string option \<Rightarrow> reply" where
  "sse_post_message table sessionId =
     (case sessionId of
        None \<Rightarrow> Reply 400 (Text ''Missing sessionId parameter'')
      | Some sid \<Rightarrow>
          if sid = [] then Reply 400 (Text ''Missing sessionId parameter'')
          else (case js_get table sid of
                  Own transport \<Rightarrow> HandedTo transport
                | _ \<Rightarrow> Reply 503 (Text (''No active SSE connection for session '' @ sid))))"

text \<open>
  The fan-out of one message of the child: \<^verbatim>\<open>Object.entries(sessions)\<close> is taken once,
  then each session is sent the message; a session whose \<^verbatim>\<open>send\<close> throws is deleted.
  Which sends throw is the environment's choice (\<open>failing\<close>).
\<close>

fun fan_out :: "string list \<Rightarrow> json \<Rightarrow> (string \<times> nat) list \<Rightarrow> sse_binding \<Rightarrow> sse_binding" where
  "fan_out failing m [] b = b"
| "fan_out failing m ((sid, t) # entries) b =
     fan_out failing m entries
       (if sid \<in> set failing then b\<lparr> sessions := js_delete (sessions b) sid \<rparr>
        else b\<lparr> sse_sent := sse_sent b @ [(sid, m)] \<rparr>)"

fun sse_lines ::
  "(jsstring \<Rightarrow> json option) \<Rightarrow> string list \<Rightarrow> jsstring list \<Rightarrow> sse_binding \<Rightarrow> sse_binding" where
  "sse_lines parse failing [] b = b"
| "sse_lines parse failing (line # lines) b =
     sse_lines parse failing lines
       (case read_line parse line of
          Message m \<Rightarrow> fan_out failing m (sessions b) b
        | _ \<Rightarrow> b)"

definition sse_stdout_data ::
  "(jsstring \<Rightarrow> json option) \<Rightarrow> string list \<Rightarrow> byte list \<Rightarrow> sse_binding \<Rightarrow> sse_binding" where
  "sse_stdout_data parse failing chunk b =
     (let (lines, buffer') = stdout_data (sse_buffer b) chunk
      in sse_lines parse failing lines (b\<lparr> sse_buffer := buffer' \<rparr>))"

text \<open>
  The events of the process. \<open>Connect\<close> is a GET on the SSE path (the session id is the
  new transport's; it is stored when truthy), \<open>ClientMessage\<close> the transport's
  \<^verbatim>\<open>onmessage\<close>, \<open>Disconnect\<close> any of \<^verbatim>\<open>onclose\<close>, \<^verbatim>\<open>onerror\<close> and the request's
  \<^verbatim>\<open>close\<close>, \<open>ChildStdout\<close> a \<^verbatim>\<open>data\<close> event, and \<open>ChildExit\<close> the child's \<^verbatim>\<open>exit\<close>
  event with its code (\<open>None\<close> for \<^verbatim>\<open>null\<close>). The first component is the binding.
\<close>

datatype sse_event =
    Connect nat string nat
  | ClientMessage nat json
  | Disconnect nat string
  | ChildStdout nat "byte list" "string list"
  | ChildExit nat "int option"

datatype sse_process = Running "sse_binding list" | Exited int

definition on_binding :: "nat \<Rightarrow> (sse_binding \<Rightarrow> sse_binding) \<Rightarrow> sse_binding list \<Rightarrow> sse_process" where
  "on_binding i f bs = Running (if i < length bs then bs[i := f (bs ! i)] else bs)"

fun sse_step :: "(jsstring \<Rightarrow> json option) \<Rightarrow> sse_process \<Rightarrow> sse_event \<Rightarrow> sse_process" where
  "sse_step parse (Exited c) e = Exited c"
| "sse_step parse (Running bs) (Connect i sid t) =
     on_binding i (\<lambda>b. if sid \<noteq> [] then b\<lparr> sessions := js_set (sessions b) sid t \<rparr> else b) bs"
| "sse_step parse (Running bs) (ClientMessage i msg) =
     on_binding i (\<lambda>b. b\<lparr> sse_stdin := sse_stdin b @ [msg] \<rparr>) bs"
| "sse_step parse (Running bs) (Disconnect i sid) =
     on_binding i (\<lambda>b. b\<lparr> sessions := js_delete (sessions b) sid \<rparr>) bs"
| "sse_step parse (Running bs) (ChildStdout i chunk failing) =
     on_binding i (sse_stdout_data parse failing chunk) bs"
| "sse_step parse (Running bs) (ChildExit i code) =
     (if i < length bs then Exited (case code of None \<Rightarrow> 1 | Some c \<Rightarrow> c) else Running bs)"

text \<open>The process as \<^verbatim>\<open>multiStdioToSse\<close> starts it: one binding per server.\<close>

definition sse_start :: "gateway \<Rightarrow> sse_process" where
  "sse_start g =
     Running (map (\<lambda>_. \<lparr> sessions = [], sse_stdin = [], sse_buffer = [], sse_sent = [] \<rparr>)
       (children g))"

section \<open>The stateless Streamable-HTTP gateway: requests\<close>

text \<open>
  The children spawned and the transports created so far. A POST on a binding's path
  builds a transport and spawns the binding's command; GET and DELETE on it are refused.
\<close>

record stateless_world =
  spawned :: "string list"
  transports_created :: nat

text \<open>
  \<^verbatim>\<open>app.use(express.json())\<close> runs before every route, whatever the method. A request
  whose body is declared as JSON and does not parse (or is neither an object nor an
  array, or is too large) is refused there: the parser passes an error on, Express
  answers it (status 400) and no route sees the request. Every other request is passed
  on. The \<^verbatim>\<open>cors\<close> middleware, when configured, answers \<^verbatim>\<open>OPTIONS\<close> requests only; to the
  others it adds headers.
\<close>

datatype body_parser = Passed | Refused

definition method_not_allowed :: json where
  "method_not_allowed =
     JObj [(''jsonrpc'', JStr ''2.0''),
           (''error'', JObj [(''code'', JNum (- 32000)), (''message'', JStr ''Method not allowed.'')]),
           (''id'', JNull)]"

definition stateless_request ::
  "(string \<Rightarrow> string \<Rightarrow> bool) \<Rightarrow> gateway \<Rightarrow> stateless_world \<Rightarrow> body_parser \<Rightarrow>
   http_method \<Rightarrow> string \<Rightarrow> stateless_world \<times> reply" where
  "stateless_request matches g w parsed m p =
     (case parsed of
        Refused \<Rightarrow> (w, BodyRefused)
      | Passed \<Rightarrow>
          (case dispatch matches (routes g) m p of
             None \<Rightarrow> (w, NotFound)
           | Some (Health hs) \<Rightarrow> (w, Reply 200 (Text ''ok''))
           | Some (StatelessPost cmd label) \<Rightarrow>
               (w\<lparr> spawned := spawned w @ [cmd],
                   transports_created := Suc (transports_created w) \<rparr>,
                HandedTo (transports_created w))
           | Some MethodNotAllowed \<Rightarrow> (w, Reply 405 (Json method_not_allowed))
           | Some _ \<Rightarrow> (w, NotFound)))"

section \<open>The stateless Streamable-HTTP gateway: one POST\<close>

text \<open>
  The state that the POST handler keeps for its transport and child: the four variables
  of the initialization flow, the framer's buffer, the messages written to the child's
  stdin (each as one line, \<^verbatim>\<open>JSON.stringify(msg) + '\n'\<close>) and the messages passed to
  \<^verbatim>\<open>transport.send\<close>, both in order.
\<close>

record interposer =
  isInitialized :: bool
  initializeRequestId :: "json option"
  isAutoInitializing :: bool
  pendingOriginalMessage :: "json option"
  stdout_buffer :: jsstring
  child_stdin :: "json list"
  sent :: "json list"

definition interposer_start :: interposer where
  "interposer_start =
     \<lparr> isInitialized = False, initializeRequestId = None, isAutoInitializing = False,
       pendingOriginalMessage = None, stdout_buffer = [], child_stdin = [], sent = [] \<rparr>"

definition createInitializeRequest :: "json \<Rightarrow> string \<Rightarrow> string \<Rightarrow> json" where
  "createInitializeRequest ident protocol_version version =
     JObj [(''jsonrpc'', JStr ''2.0''),
           (''id'', ident),
           (''method'', JStr ''initialize''),
           (''params'',
            JObj [(''protocolVersion'', JStr protocol_version),
                  (''capabilities'',
                   JObj [(''roots'', JObj [(''listChanged'', JBool True)]),
                         (''sampling'', JObj [])]),
                  (''clientInfo'',
                   JObj [(''name'', JStr ''supergateway''), (''version'', JStr version)])])]"

definition createInitializedNotification :: json where
  "createInitializedNotification =
     JObj [(''jsonrpc'', JStr ''2.0''), (''method'', JStr ''notifications/initialized'')]"

text \<open>
  \<^verbatim>\<open>`init_${Date.now()}_${Math.random().toString(36).substr(2, 9)}`\<close>: the clock and the
  random digits are the environment's, given as the text they are printed as.
\<close>

definition auto_init_id :: "string \<Rightarrow> string \<Rightarrow> json" where
  "auto_init_id now random = JStr (''init_'' @ now @ ''_'' @ random)"

text \<open>
  \<^verbatim>\<open>transport.onmessage\<close>. \<open>isInit\<close> is the SDK's \<^verbatim>\<open>isInitializeRequest\<close>,
  \<open>version\<close> what \<^verbatim>\<open>getVersion()\<close> returns. The SDK's predicate holds of objects
  only, so \<^verbatim>\<open>'id' in msg\<close> does not throw where it is evaluated.
\<close>

definition transport_onmessage ::
  "(json \<Rightarrow> bool) \<Rightarrow> string \<Rightarrow> string \<Rightarrow> string \<Rightarrow> string \<Rightarrow> json \<Rightarrow> interposer \<Rightarrow> interposer" where
  "transport_onmessage isInit protocol_version version now random msg st =
     (if \<not> isInitialized st \<and> \<not> isInit msg then
        st\<lparr> pendingOriginalMessage := Some msg,
            initializeRequestId := Some (auto_init_id now random),
            isAutoInitializing := True,
            child_stdin := child_stdin st @
              [createInitializeRequest (auto_init_id now random) protocol_version version] \<rparr>
      else
        (let st' = (case (isInit msg, js_prop msg ''id'') of
                      (True, Val ident) \<Rightarrow>
                        st\<lparr> initializeRequestId := Some ident, isAutoInitializing := False \<rparr>
                    | _ \<Rightarrow> st)
         in st'\<lparr> child_stdin := child_stdin st' @ [msg] \<rparr>))"

text \<open>
  The body of \<^verbatim>\<open>lines.forEach\<close> for a line that parsed to \<open>jsonMsg\<close>. Reading
  \<^verbatim>\<open>jsonMsg.id\<close> of \<^verbatim>\<open>null\<close> throws; the outer \<^verbatim>\<open>catch\<close> logs the line as non-JSON
  and it is dropped.
\<close>

definition tracked :: "interposer \<Rightarrow> json option" where
  "tracked st =
     (case initializeRequestId st of
        None \<Rightarrow> None
      | Some ident \<Rightarrow> if js_truthy ident then Some ident else None)"

definition answers :: "json \<Rightarrow> json \<Rightarrow> bool" where
  "answers jsonMsg ident =
     (case js_prop jsonMsg ''id'' of Val v \<Rightarrow> js_strict_eq v ident | _ \<Rightarrow> False)"

definition child_message :: "json \<Rightarrow> interposer \<Rightarrow> interposer" where
  "child_message jsonMsg st =
     (case tracked st of
        None \<Rightarrow> st\<lparr> sent := sent st @ [jsonMsg] \<rparr>
      | Some ident \<Rightarrow>
          if js_prop jsonMsg ''id'' = TypeError then st
          else if answers jsonMsg ident then
            (if isAutoInitializing st then
               st\<lparr> isInitialized := True,
                   child_stdin := child_stdin st @ [createInitializedNotification] @
                     (case pendingOriginalMessage st of None \<Rightarrow> [] | Some m \<Rightarrow> [m]),
                   pendingOriginalMessage := None,
                   isAutoInitializing := False,
                   initializeRequestId := None \<rparr>
             else st\<lparr> isInitialized := True, initializeRequestId := None,
                     sent := sent st @ [jsonMsg] \<rparr>)
          else st\<lparr> sent := sent st @ [jsonMsg] \<rparr>)"

text \<open>The \<^verbatim>\<open>data\<close> handler of the child's stdout: the framer, then the lines in order.\<close>

fun child_lines :: "(jsstring \<Rightarrow> json option) \<Rightarrow> jsstring list \<Rightarrow> interposer \<Rightarrow> interposer" where
  "child_lines parse [] st = st"
| "child_lines parse (line # lines) st =
     child_lines parse lines
       (case read_line parse line of Message m \<Rightarrow> child_message m st | _ \<Rightarrow> st)"

definition child_stdout_data ::
  "(jsstring \<Rightarrow> json option) \<Rightarrow> byte list \<Rightarrow> interposer \<Rightarrow> interposer" where
  "child_stdout_data parse chunk st =
     (let (lines, buffer') = stdout_data (stdout_buffer st) chunk
      in child_lines parse lines (st\<lparr> stdout_buffer := buffer' \<rparr>))"

text \<open>
  What happens during one POST: a message of the client reaches \<^verbatim>\<open>onmessage\<close> (a JSON
  array in the body is a batch, and the transport calls \<^verbatim>\<open>onmessage\<close> for each of its
  messages in turn), or a line of the child parses to a message.
\<close>

datatype post_event = FromClient json string string | FromChild json

fun post_step ::
  "(json \<Rightarrow> bool) \<Rightarrow> string \<Rightarrow> string \<Rightarrow> interposer \<Rightarrow> post_event \<Rightarrow> interposer" where
  "post_step isInit protocol_version version st (FromClient msg now random) =
     transport_onmessage isInit protocol_version version now random msg st"
| "post_step isInit protocol_version version st (FromChild jsonMsg) = child_message jsonMsg st"

definition post_run ::
  "(json \<Rightarrow> bool) \<Rightarrow> string \<Rightarrow> string \<Rightarrow> post_event list \<Rightarrow> interposer" where
  "post_run isInit protocol_version version events =
     foldl (post_step isInit protocol_version version) interposer_start events"

text \<open>The messages of a run by direction.\<close>

fun from_child :: "post_event list \<Rightarrow> json list" where
  "from_child [] = []"
| "from_child (FromChild r # es) = r # from_child es"
| "from_child (_ # es) = from_child es"

fun from_client :: "post_event list \<Rightarrow> json list" where
  "from_client [] = []"
| "from_client (FromClient m _ _ # es) = m # from_client es"
| "from_client (_ # es) = from_client es"

text \<open>
  The SDK's \<^verbatim>\<open>isInitializeRequest\<close> accepts only an object whose \<^verbatim>\<open>method\<close> is
  \<^verbatim>\<open>initialize\<close> (and whose \<^verbatim>\<open>params\<close> have the shape of an initialize request). In
  the worked examples this test stands for it; the two agree on the messages used there.
\<close>

definition has_initialize_method :: "json \<Rightarrow> bool" where
  "has_initialize_method msg = (js_prop msg ''method'' = Val (JStr ''initialize''))"

definition tools_list :: "rat \<Rightarrow> json" where
  "tools_list n = JObj [(''jsonrpc'', JStr ''2.0''), (''id'', JNum n), (''method'', JStr ''tools/list'')]"

definition result_for :: "json \<Rightarrow> json" where
  "result_for ident = JObj [(''jsonrpc'', JStr ''2.0''), (''id'', ident), (''result'', JObj [])]"

section \<open>The stateful Streamable-HTTP gateway at run time\<close>

text \<open>
  One binding of \<^verbatim>\<open>multiStdioToStatefulStreamableHttp\<close>. Transports are numbered in the
  order of their creation. With each transport the POST handler creates a
  \<^verbatim>\<open>Server\<close> and connects it, spawns a child with the binding's command, and wires the
  two: what is recorded of that, per transport, is the command the child was spawned
  with, the messages \<^verbatim>\<open>transport.onmessage\<close> has written to the child's stdin (each as
  one line, \<^verbatim>\<open>JSON.stringify(msg) + '\n'\<close>), the buffer of the child's stdout handler
  and the messages that handler has passed to \<^verbatim>\<open>transport.send\<close>.
\<close>

record session_wiring =
  server_connected :: bool
  child_command :: string
  child_input :: "json list"
  child_tail :: jsstring
  forwarded :: "json list"

text \<open>
  The state holds the binding's configuration and the session timeout the gateway was
  given, the table \<^verbatim>\<open>transports\<close>, the \<^verbatim>\<open>sessionId\<close> of every transport created
  (\<open>None\<close> until the SDK has initialized the session) and its wiring, the calls made
  on the session counter, the children killed (a child is named by its transport's
  number), and, as history, the transports that have reported close or error and the
  session ids \<^verbatim>\<open>onExpire\<close> has run for.
\<close>

datatype counter_call = Inc string | Dec string | Clear string bool

record stateful_binding =
  binding_config :: server_config
  session_timeout :: "int option"
  transports :: "(string \<times> nat) list"
  session_ids :: "string option list"
  wirings :: "session_wiring list"
  counter_calls :: "counter_call list"
  killed :: "nat list"
  reported :: "nat list"
  expired :: "string list"

definition stateful_start :: "server_config \<Rightarrow> int option \<Rightarrow> stateful_binding" where
  "stateful_start config ms =
     \<lparr> binding_config = config, session_timeout = ms, transports = [], session_ids = [],
       wirings = [], counter_calls = [], killed = [], reported = [], expired = [] \<rparr>"

text \<open>
  \<^verbatim>\<open>sessionTimeout ? new SessionAccessCounter(...) : null\<close>: there is a counter when
  the timeout is a number other than 0, and \<^verbatim>\<open>sessionCounter?.f(...)\<close> is a call only
  then.
\<close>

definition has_counter :: "stateful_binding \<Rightarrow> bool" where
  "has_counter st = (case session_timeout st of None \<Rightarrow> False | Some t \<Rightarrow> t \<noteq> 0)"

definition counter_call :: "counter_call \<Rightarrow> stateful_binding \<Rightarrow> stateful_binding" where
  "counter_call c st = (if has_counter st then st\<lparr> counter_calls := counter_calls st @ [c] \<rparr> else st)"

definition transport_sessionId :: "stateful_binding \<Rightarrow> nat \<Rightarrow> string option" where
  "transport_sessionId st t = (if t < length (session_ids st) then session_ids st ! t else None)"

text \<open>
  \<^verbatim>\<open>transport.onclose\<close> and \<^verbatim>\<open>transport.onerror\<close>, which have the same body but for
  the log line and the reason passed to \<^verbatim>\<open>clear\<close>.
\<close>

definition transport_onclose :: "nat \<Rightarrow> stateful_binding \<Rightarrow> stateful_binding" where
  "transport_onclose t st =
     (let st' = (case transport_sessionId st t of
                   None \<Rightarrow> st
                 | Some sid \<Rightarrow>
                     if sid \<noteq> [] then
                       (counter_call (Clear sid False) st)
                         \<lparr> transports := js_delete (transports st) sid \<rparr>
                     else st)
      in st'\<lparr> killed := killed st' @ [t] \<rparr>)"

definition transport_onerror :: "nat \<Rightarrow> stateful_binding \<Rightarrow> stateful_binding" where
  "transport_onerror t st =
     (let st' = (case transport_sessionId st t of
                   None \<Rightarrow> st
                 | Some sid \<Rightarrow>
                     if sid \<noteq> [] then
                       (counter_call (Clear sid False) st)
                         \<lparr> transports := js_delete (transports st) sid \<rparr>
                     else st)
      in st'\<lparr> killed := killed st' @ [t] \<rparr>)"

text \<open>\<^verbatim>\<open>transport.close()\<close>: the SDK's transport calls \<^verbatim>\<open>onclose\<close>.\<close>

definition transport_close :: "nat \<Rightarrow> stateful_binding \<Rightarrow> stateful_binding" where
  "transport_close t st = (transport_onclose t st)\<lparr> reported := reported st @ [t] \<rparr>"

text \<open>
  The callback given to the session counter. Under a name that only
  \<^verbatim>\<open>Object.prototype\<close> defines, \<^verbatim>\<open>transport.close\<close> is not a function and the callback
  throws before the \<^verbatim>\<open>delete\<close>.
\<close>

definition onExpire :: "string \<Rightarrow> stateful_binding \<Rightarrow> stateful_binding" where
  "onExpire sid st =
     (let st0 = st\<lparr> expired := expired st @ [sid] \<rparr>
      in case js_get (transports st0) sid of
           Own t \<Rightarrow>
             (let st' = transport_close t st0
              in st'\<lparr> transports := js_delete (transports st') sid \<rparr>)
         | Inherited \<Rightarrow> st0
         | Missing \<Rightarrow> st0\<lparr> transports := js_delete (transports st0) sid \<rparr>)"

definition bad_request :: json where
  "bad_request =
     JObj [(''jsonrpc'', JStr ''2.0''),
           (''error'', JObj [(''code'', JNum (- 32000)),
                             (''message'', JStr ''Bad Request: No valid session ID provided'')]),
           (''id'', JNull)]"

text \<open>
  \<^verbatim>\<open>req.headers['mcp-session-id']\<close>: \<open>None\<close> without the header; a header without a
  value is the empty string, which is falsy like \<^verbatim>\<open>undefined\<close>.
\<close>

definition header_value :: "string option \<Rightarrow> string" where
  "header_value h = (case h of None \<Rightarrow> [] | Some v \<Rightarrow> v)"

text \<open>
  What the POST handler sets up with a new transport, before it hands the request over:
  \<^verbatim>\<open>new Server(...)\<close> and \<^verbatim>\<open>await server.connect(transport)\<close>,
  \<^verbatim>\<open>spawn(serverConfig.stdioCmd, { shell: true })\<close>, and the handlers of the child and of
  the transport, which start from an empty buffer.
\<close>

definition fresh_wiring :: "server_config \<Rightarrow> session_wiring" where
  "fresh_wiring config =
     \<lparr> server_connected = True, child_command = stdioCmd config, child_input = [],
       child_tail = [], forwarded = [] \<rparr>"

text \<open>
  The POST handler, up to and including \<^verbatim>\<open>transport.handleRequest\<close>. For a new
  transport the SDK initializes the session inside \<^verbatim>\<open>handleRequest\<close>, when it accepts
  the request: \<open>generated\<close> is then the id its generator (\<^verbatim>\<open>randomUUID\<close>) returned,
  and \<open>None\<close> when the SDK refused the request before. The SDK sets
  \<^verbatim>\<open>transport.sessionId\<close> and calls \<^verbatim>\<open>onsessioninitialized\<close> when the id is truthy.
  Where the table lookup finds what \<^verbatim>\<open>Object.prototype\<close> defines,
  \<^verbatim>\<open>transport.handleRequest\<close> is not a function and the handler throws.
\<close>

definition stateful_post ::
  "(json \<Rightarrow> bool) \<Rightarrow> stateful_binding \<Rightarrow> string option \<Rightarrow> json \<Rightarrow> string option \<Rightarrow>
   stateful_binding \<times> reply" where
  "stateful_post isInit st header body generated =
     (let sessionId = header_value header
      in if sessionId \<noteq> [] \<and> js_get (transports st) sessionId \<noteq> Missing then
           (counter_call (Inc sessionId) st,
            case js_get (transports st) sessionId of Own t \<Rightarrow> HandedTo t | _ \<Rightarrow> Threw)
         else if sessionId = [] \<and> isInit body then
           (let t = length (session_ids st);
                created = st\<lparr> session_ids := session_ids st @ [generated],
                              wirings := wirings st @ [fresh_wiring (binding_config st)] \<rparr>
            in (case generated of
                  None \<Rightarrow> created
                | Some newSessionId \<Rightarrow>
                    if newSessionId \<noteq> [] then
                      counter_call (Inc newSessionId)
                        (created\<lparr> transports := js_set (transports created) newSessionId t \<rparr>)
                    else created,
                HandedTo t))
         else (st, Reply 400 (Json bad_request)))"

text \<open>\<^verbatim>\<open>handleSessionRequest\<close>, for GET and DELETE.\<close>

definition handleSessionRequest :: "stateful_binding \<Rightarrow> string option \<Rightarrow> stateful_binding \<times> reply" where
  "handleSessionRequest st header =
     (let sessionId = header_value header
      in if sessionId = [] \<or> js_get (transports st) sessionId = Missing then
           (st, Reply 400 (Text ''Invalid or missing session ID''))
         else
           (counter_call (Inc sessionId) st,
            case js_get (transports st) sessionId of Own t \<Rightarrow> HandedTo t | _ \<Rightarrow> Threw))"

text \<open>
  The wiring of a transport and its child. \<^verbatim>\<open>transport.onmessage\<close> writes the message
  to the child's stdin; the \<^verbatim>\<open>data\<close> handler of the child's stdout runs the framer and
  passes every message to \<^verbatim>\<open>transport.send\<close> (\<open>parse\<close> is \<^verbatim>\<open>JSON.parse\<close>).
\<close>

definition on_wiring ::
  "nat \<Rightarrow> (session_wiring \<Rightarrow> session_wiring) \<Rightarrow> stateful_binding \<Rightarrow> stateful_binding" where
  "on_wiring t f st =
     (if t < length (wirings st) then st\<lparr> wirings := (wirings st)[t := f (wirings st ! t)] \<rparr>
      else st)"

definition session_onmessage :: "json \<Rightarrow> session_wiring \<Rightarrow> session_wiring" where
  "session_onmessage msg w = w\<lparr> child_input := child_input w @ [msg] \<rparr>"

definition session_stdout_data ::
  "(jsstring \<Rightarrow> json option) \<Rightarrow> byte list \<Rightarrow> session_wiring \<Rightarrow> session_wiring" where
  "session_stdout_data parse chunk w =
     (let (lines, tail') = stdout_data (child_tail w) chunk
      in w\<lparr> child_tail := tail',
            forwarded := forwarded w @ messages_of (map (read_line parse) lines) \<rparr>)"

text \<open>
  The events of a binding: the requests; the end of a response (\<^verbatim>\<open>handleResponseEnd\<close>,
  once per request: of a POST handled by a transport, or of a GET or DELETE for a
  session id); the session counter calling \<^verbatim>\<open>onExpire\<close>; the SDK calling
  \<^verbatim>\<open>onclose\<close>, \<^verbatim>\<open>onerror\<close> or \<^verbatim>\<open>onmessage\<close> of a transport; a chunk on the stdout of
  a transport's child; the exit of a transport's child, whose handler closes the
  transport. When the counter calls \<^verbatim>\<open>onExpire\<close> is its own business: any time is
  allowed here.
\<close>

datatype stateful_event =
    Post "string option" json "string option"
  | SessionRequest "string option"
  | PostResponseEnd nat
  | SessionResponseEnd string
  | Expire string
  | TransportClosed nat
  | TransportError nat
  | TransportMessage nat json
  | ChildData nat "byte list"
  | ChildExited nat

fun stateful_step ::
  "(json \<Rightarrow> bool) \<Rightarrow> (jsstring \<Rightarrow> json option) \<Rightarrow> stateful_binding \<Rightarrow> stateful_event \<Rightarrow>
   stateful_binding" where
  "stateful_step isInit parse st (Post header body generated) =
     fst (stateful_post isInit st header body generated)"
| "stateful_step isInit parse st (SessionRequest header) = fst (handleSessionRequest st header)"
| "stateful_step isInit parse st (PostResponseEnd t) =
     (case transport_sessionId st t of
        None \<Rightarrow> st
      | Some sid \<Rightarrow> if sid \<noteq> [] then counter_call (Dec sid) st else st)"
| "stateful_step isInit parse st (SessionResponseEnd sid) = counter_call (Dec sid) st"
| "stateful_step isInit parse st (Expire sid) = (if has_counter st then onExpire sid st else st)"
| "stateful_step isInit parse st (TransportClosed t) =
     (if t < length (session_ids st)
      then (transport_onclose t st)\<lparr> reported := reported st @ [t] \<rparr> else st)"
| "stateful_step isInit parse st (TransportError t) =
     (if t < length (session_ids st)
      then (transport_onerror t st)\<lparr> reported := reported st @ [t] \<rparr> else st)"
| "stateful_step isInit parse st (TransportMessage t msg) = on_wiring t (session_onmessage msg) st"
| "stateful_step isInit parse st (ChildData t chunk) =
     on_wiring t (session_stdout_data parse chunk) st"
| "stateful_step isInit parse st (ChildExited t) =
     (if t < length (session_ids st) then transport_close t st else st)"

definition stateful_run ::
  "(json \<Rightarrow> bool) \<Rightarrow> (jsstring \<Rightarrow> json option) \<Rightarrow> server_config \<Rightarrow> int option \<Rightarrow>
   stateful_event list \<Rightarrow> stateful_binding" where
  "stateful_run isInit parse config ms events =
     foldl (stateful_step isInit parse) (stateful_start config ms) events"

text \<open>
  Modelled from the spec: the class \<^verbatim>\<open>SessionAccessCounter\<close> (\<^verbatim>\<open>lib/sessionAccessCounter\<close>)
  is not among the sources. Per key it keeps a count and an idle timer: \<open>inc\<close>
  increments the count and cancels the timer on the step from 0 to 1; \<open>dec\<close> decrements
  it, never below 0, and arms the timer on reaching 0 when the timeout is positive;
  \<open>clear\<close> cancels the timer and removes the entry (and then calls \<^verbatim>\<open>onExpire\<close> if told
  to). The entries after a sequence of calls:
\<close>

fun counter_apply ::
  "int \<Rightarrow> (string \<Rightarrow> (nat \<times> bool) option) \<Rightarrow> counter_call \<Rightarrow> (string \<Rightarrow> (nat \<times> bool) option)" where
  "counter_apply ms m (Inc k) =
     (case m k of
        None \<Rightarrow> m(k \<mapsto> (1, False))
      | Some (n, armed) \<Rightarrow> m(k \<mapsto> (Suc n, if n = 0 then False else armed)))"
| "counter_apply ms m (Dec k) =
     (case m k of
        None \<Rightarrow> m
      | Some (n, armed) \<Rightarrow>
          if n = 0 then m else m(k \<mapsto> (n - 1, if n = 1 \<and> 0 < ms then True else armed)))"
| "counter_apply ms m (Clear k fire) = m(k := None)"

definition counter_entries :: "stateful_binding \<Rightarrow> string \<Rightarrow> (nat \<times> bool) option" where
  "counter_entries st =
     foldl (counter_apply (case session_timeout st of None \<Rightarrow> 0 | Some ms \<Rightarrow> ms)) Map.empty (counter_calls st)"


text \<open>
  The invariant of the session table: every entry is keyed by the non-empty session id
  of its transport, and its transport has not reported close or error; and only
  transports that were created have reported anything.
\<close>

definition table_ok :: "stateful_binding \<Rightarrow> bool" where
  "table_ok st =
     (list_all (\<lambda>(sid, t). sid \<noteq> [] \<and> transport_sessionId st t = Some sid \<and>
                            t \<notin> set (reported st)) (transports st) \<and>
      list_all (\<lambda>t. t < length (session_ids st)) (reported st) \<and>
      (has_counter st \<or> counter_calls st = []))"

text \<open>An initialize request, for the worked examples.\<close>

definition initialize_request :: json where
  "initialize_request =
     JObj [(''jsonrpc'', JStr ''2.0''), (''id'', JNum 0), (''method'', JStr ''initialize''),
           (''params'', JObj [(''protocolVersion'', JStr ''2024-11-05''),
                             (''capabilities'', JObj []),
                             (''clientInfo'', JObj [(''name'', JStr ''client''),
                                                   (''version'', JStr ''1.0.0'')])])]"

text \<open>A binding after one session has been initialized, for the worked examples.\<close>

definition echo_binding :: server_config where
  "echo_binding = \<lparr> path = ''/'', stdioCmd = ''echo-mcp'' \<rparr>"



section \<open>Start-up: \<^verbatim>\<open>main\<close>\<close>

text \<open>
  The parsed command line. An option that was not given is \<open>None\<close> (\<^verbatim>\<open>undefined\<close>);
  \<open>arg_cors\<close> and \<open>arg_headers\<close> stand for what the helpers \<^verbatim>\<open>corsOrigin({ argv })\<close> and
  \<^verbatim>\<open>headers({ argv, logger })\<close> compute from the command line.
\<close>

record argv =
  arg_stdio :: "string list option"
  arg_sse :: "string option"
  arg_streamableHttp :: "string option"
  arg_multiServerConfig :: "string option"
  arg_outputTransport :: "string option"
  arg_port :: nat
  arg_baseUrl :: string
  arg_ssePath :: string
  arg_messagePath :: string
  arg_streamableHttpPath :: string
  arg_cors :: "string option"
  arg_healthEndpoint :: "string list"
  arg_headers :: "(string \<times> string) list"
  arg_stateful :: bool
  arg_sessionTimeout :: "int option"
  arg_protocolVersion :: string

text \<open>What reading and parsing the file of \<^verbatim>\<open>--multiServerConfig\<close> gives.\<close>

datatype config_file = Unreadable | NotJson | Parsed json

text \<open>
  The outcome of \<^verbatim>\<open>main\<close>: \<^verbatim>\<open>process.exit\<close> with a code, or the gateway it starts,
  with the arguments passed. (A gateway that throws while starting up is caught by
  \<^verbatim>\<open>main\<close>, which then exits with code 1; the calls are recorded here, not run.)
\<close>

datatype call =
    Call_multiStdioToStatefulStreamableHttp "server_config list" stateful_args
  | Call_multiStdioToStatelessStreamableHttp "server_config list" stateless_args
  | Call_multiStdioToSse "server_config list" sse_args
  | Call_multiStdioToWs "server_config list" ws_args
  | Call_stdioToStatefulStreamableHttp string stateful_args
  | Call_stdioToStatelessStreamableHttp string stateless_args
  | Call_stdioToSse string sse_args
  | Call_stdioToWs string ws_args
  | Call_sseToStdio string
  | Call_streamableHttpToStdio string

datatype outcome = Exit int | Started call

definition truthy_string :: "string option \<Rightarrow> bool" where
  "truthy_string v = (case v of None \<Rightarrow> False | Some s \<Rightarrow> s \<noteq> [])"

definition sse_args_of :: "argv \<Rightarrow> sse_args" where
  "sse_args_of a =
     \<lparr> port = arg_port a, corsOrigin = arg_cors a, healthEndpoints = arg_healthEndpoint a,
       headers = arg_headers a, baseUrl = arg_baseUrl a, ssePath = arg_ssePath a,
       messagePath = arg_messagePath a \<rparr>"

definition ws_args_of :: "argv \<Rightarrow> ws_args" where
  "ws_args_of a =
     \<lparr> port = arg_port a, corsOrigin = arg_cors a, healthEndpoints = arg_healthEndpoint a,
       ws_messagePath = arg_messagePath a \<rparr>"

definition stateful_args_of :: "argv \<Rightarrow> int option \<Rightarrow> stateful_args" where
  "stateful_args_of a timeout =
     \<lparr> port = arg_port a, corsOrigin = arg_cors a, healthEndpoints = arg_healthEndpoint a,
       headers = arg_headers a, streamableHttpPath = arg_streamableHttpPath a,
       sessionTimeout = timeout \<rparr>"

definition stateless_args_of :: "argv \<Rightarrow> stateless_args" where
  "stateless_args_of a =
     \<lparr> port = arg_port a, corsOrigin = arg_cors a, healthEndpoints = arg_healthEndpoint a,
       headers = arg_headers a, streamableHttpPath = arg_streamableHttpPath a,
       protocolVersion = arg_protocolVersion a \<rparr>"

text \<open>\<^verbatim>\<open>path.startsWith('/') ? path : `/${path}`\<close>.\<close>

definition with_leading_slash :: "string \<Rightarrow> string" where
  "with_leading_slash p = (if startsWith_slash p then p else ''/'' @ p)"

text \<open>
  The entries of \<^verbatim>\<open>servers\<close> in the configuration file, in order; \<open>None\<close> is the
  \<^verbatim>\<open>process.exit(1)\<close> at the first entry that is not an object or lacks a non-empty
  string \<^verbatim>\<open>path\<close> or \<^verbatim>\<open>stdio\<close>.
\<close>

fun typeof_object :: "json \<Rightarrow> bool" where
  "typeof_object JNull = True"
| "typeof_object (JArr _) = True"
| "typeof_object (JObj _) = True"
| "typeof_object _ = False"

definition string_field :: "json \<Rightarrow> string \<Rightarrow> string" where
  "string_field s k = (case js_prop s k of Val (JStr v) \<Rightarrow> v | _ \<Rightarrow> [])"

fun config_entries :: "json list \<Rightarrow> server_config list option" where
  "config_entries [] = Some []"
| "config_entries (s # rest) =
     (if \<not> js_truthy s \<or> \<not> typeof_object s then None
      else if string_field s ''path'' = [] \<or> string_field s ''stdio'' = [] then None
      else (case config_entries rest of
              None \<Rightarrow> None
            | Some servers \<Rightarrow>
                Some (\<lparr> path = with_leading_slash (string_field s ''path''),
                        stdioCmd = string_field s ''stdio'' \<rparr> # servers)))"

text \<open>
  \<^verbatim>\<open>(configJson && typeof configJson === 'object' && Array.isArray(configJson.servers)
  && configJson.servers.map(...)) || []\<close>.
\<close>

definition config_servers :: "json \<Rightarrow> server_config list option" where
  "config_servers configJson =
     (case configJson of
        JObj kvs \<Rightarrow> (case map_of kvs ''servers'' of
                       Some (JArr entries) \<Rightarrow> config_entries entries
                     | _ \<Rightarrow> Some [])
      | _ \<Rightarrow> Some [])"

text \<open>
  The choice of the gateway for several bindings; the block is written twice in
  \<^verbatim>\<open>main\<close>, for \<^verbatim>\<open>--multiServerConfig\<close> and for \<^verbatim>\<open>--stdio name=command\<close>, with the
  same branches. The session timeout is passed on as it is when it is a number.
\<close>

definition start_multi :: "argv \<Rightarrow> server_config list \<Rightarrow> outcome" where
  "start_multi a servers =
     (if arg_outputTransport a = Some ''streamableHttp'' then
        (if arg_stateful a then
           Started (Call_multiStdioToStatefulStreamableHttp servers
                      (stateful_args_of a (arg_sessionTimeout a)))
         else Started (Call_multiStdioToStatelessStreamableHttp servers (stateless_args_of a)))
      else if arg_outputTransport a = Some ''sse'' then
        (if arg_stateful a then Exit 1
         else Started (Call_multiStdioToSse servers (sse_args_of a)))
      else if arg_outputTransport a = Some ''ws'' then
        (if arg_stateful a then Exit 1
         else Started (Call_multiStdioToWs servers (ws_args_of a)))
      else Exit 1)"

text \<open>
  \<^verbatim>\<open>String.prototype.trim\<close>: it removes white space and line terminators from both
  ends. In the UTF-8 form of the text these are the following byte sequences (tab, line
  feed, vertical tab, form feed, carriage return, space, U+00A0, U+1680, U+2000 to
  U+200A, U+2028, U+2029, U+202F, U+205F, U+3000, U+FEFF).
\<close>

definition space_sequences :: "string list" where
  "space_sequences =
     [[CHR 0x09], [CHR 0x0A], [CHR 0x0B], [CHR 0x0C], [CHR 0x0D], [CHR 0x20],
      [CHR 0xC2, CHR 0xA0], [CHR 0xE1, CHR 0x9A, CHR 0x80],
      [CHR 0xE2, CHR 0x80, CHR 0x80], [CHR 0xE2, CHR 0x80, CHR 0x81],
      [CHR 0xE2, CHR 0x80, CHR 0x82], [CHR 0xE2, CHR 0x80, CHR 0x83],
      [CHR 0xE2, CHR 0x80, CHR 0x84], [CHR 0xE2, CHR 0x80, CHR 0x85],
      [CHR 0xE2, CHR 0x80, CHR 0x86], [CHR 0xE2, CHR 0x80, CHR 0x87],
      [CHR 0xE2, CHR 0x80, CHR 0x88], [CHR 0xE2, CHR 0x80, CHR 0x89],
      [CHR 0xE2, CHR 0x80, CHR 0x8A], [CHR 0xE2, CHR 0x80, CHR 0xA8],
      [CHR 0xE2, CHR 0x80, CHR 0xA9], [CHR 0xE2, CHR 0x80, CHR 0xAF],
      [CHR 0xE2, CHR 0x81, CHR 0x9F], [CHR 0xE3, CHR 0x80, CHR 0x80],
      [CHR 0xEF, CHR 0xBB, CHR 0xBF]]"

text \<open>Removing the sequences from the front, at most \<open>n\<close> of them.\<close>

fun strip_leading :: "nat \<Rightarrow> string list \<Rightarrow> string \<Rightarrow> string" where
  "strip_leading 0 seqs s = s"
| "strip_leading (Suc n) seqs s =
     (case find (\<lambda>w. take (length w) s = w) seqs of
        None \<Rightarrow> s
      | Some w \<Rightarrow> strip_leading n seqs (drop (length w) s))"

definition js_trim :: "string \<Rightarrow> string" where
  "js_trim v =
     (let a = strip_leading (length v) space_sequences v
      in rev (strip_leading (length a) (map rev space_sequences) (rev a)))"

text \<open>The bindings of \<^verbatim>\<open>--stdio name=command\<close>; \<open>None\<close> is \<^verbatim>\<open>process.exit(1)\<close>.\<close>

fun stdio_map_entries :: "string list \<Rightarrow> server_config list option" where
  "stdio_map_entries [] = Some []"
| "stdio_map_entries (v # rest) =
     (if CHR ''='' \<notin> set v then None
      else (let name = js_trim (takeWhile (\<lambda>c. c \<noteq> CHR ''='') v);
                cmd = js_trim (tl (dropWhile (\<lambda>c. c \<noteq> CHR ''='') v))
            in if name = [] \<or> cmd = [] then None
               else (case stdio_map_entries rest of
                       None \<Rightarrow> None
                     | Some servers \<Rightarrow>
                         Some (\<lparr> path = with_leading_slash name, stdioCmd = cmd \<rparr> # servers))))"

text \<open>The single \<^verbatim>\<open>--stdio\<close> command: the validation of the session timeout is here.\<close>

definition start_single :: "argv \<Rightarrow> string \<Rightarrow> outcome" where
  "start_single a stdioArg =
     (if arg_outputTransport a = Some ''sse'' then Started (Call_stdioToSse stdioArg (sse_args_of a))
      else if arg_outputTransport a = Some ''ws'' then Started (Call_stdioToWs stdioArg (ws_args_of a))
      else if arg_outputTransport a = Some ''streamableHttp'' then
        (if arg_stateful a then
           (case arg_sessionTimeout a of
              Some t \<Rightarrow>
                if t \<le> 0 then Exit 1
                else Started (Call_stdioToStatefulStreamableHttp stdioArg
                                (stateful_args_of a (Some t)))
            | None \<Rightarrow>
                Started (Call_stdioToStatefulStreamableHttp stdioArg (stateful_args_of a None)))
         else Started (Call_stdioToStatelessStreamableHttp stdioArg (stateless_args_of a)))
      else Exit 1)"

definition main :: "argv \<Rightarrow> config_file \<Rightarrow> outcome" where
  "main a file =
     (let hasStdio = (arg_stdio a \<noteq> None);
          hasSse = truthy_string (arg_sse a);
          hasStreamableHttp = truthy_string (arg_streamableHttp a);
          hasMultiServerConfig = truthy_string (arg_multiServerConfig a);
          activeCount = length (filter id [hasStdio, hasSse, hasStreamableHttp, hasMultiServerConfig]);
          stdioValues = (case arg_stdio a of None \<Rightarrow> [] | Some vs \<Rightarrow> vs);
          isStdioMapCli = (stdioValues \<noteq> [] \<and> list_all (\<lambda>v. CHR ''='' \<in> set v) stdioValues)
      in if activeCount = 0 then Exit 1
         else if activeCount > 1 then Exit 1
         else if hasMultiServerConfig then
           (if hasStdio \<or> hasSse \<or> hasStreamableHttp then Exit 1
            else case file of
              Unreadable \<Rightarrow> Exit 1
            | NotJson \<Rightarrow> Exit 1
            | Parsed configJson \<Rightarrow>
                (case config_servers configJson of
                   None \<Rightarrow> Exit 1
                 | Some servers \<Rightarrow> if servers = [] then Exit 1 else start_multi a servers))
         else if isStdioMapCli then
           (if hasSse \<or> hasStreamableHttp then Exit 1
            else case stdio_map_entries stdioValues of
              None \<Rightarrow> Exit 1
            | Some servers \<Rightarrow> start_multi a servers)
         else if hasStdio then
           (case stdioValues of
              [] \<Rightarrow> Exit 1
            | stdioArg # _ \<Rightarrow> if stdioArg = [] then Exit 1 else start_single a stdioArg)
         else if hasSse then
           (case arg_sse a of
              None \<Rightarrow> Exit 1
            | Some url \<Rightarrow>
                if arg_outputTransport a = Some ''stdio'' then Started (Call_sseToStdio url)
                else Exit 1)
         else if hasStreamableHttp then
           (case arg_streamableHttp a of
              None \<Rightarrow> Exit 1
            | Some url \<Rightarrow>
                if arg_outputTransport a = Some ''stdio''
                then Started (Call_streamableHttpToStdio url)
                else Exit 1)
         else Exit 1)"

text \<open>The defaults of the options, and a configuration file with two bindings.\<close>

definition default_argv :: argv where
  "default_argv =
     \<lparr> arg_stdio = None, arg_sse = None, arg_streamableHttp = None,
       arg_multiServerConfig = None, arg_outputTransport = None, arg_port = 8000,
       arg_baseUrl = [], arg_ssePath = ''/sse'', arg_messagePath = ''/message'',
       arg_streamableHttpPath = ''/mcp'', arg_cors = None, arg_healthEndpoint = [],
       arg_headers = [], arg_stateful = False, arg_sessionTimeout = None,
       arg_protocolVersion = ''2024-11-05'' \<rparr>"

definition example_config :: json where
  "example_config =
     JObj [(''servers'',
            JArr [JObj [(''path'', JStr ''/git''), (''stdio'', JStr ''git-mcp'')],
                  JObj [(''path'', JStr ''docker''), (''stdio'', JStr ''docker-mcp'')]])]"

text \<open>Arguments used in the worked examples below.\<close>

definition example_stateless_args :: stateless_args where
  "example_stateless_args =
     \<lparr> port = 8000, corsOrigin = None, healthEndpoints = [''/healthz''], headers = [],
       streamableHttpPath = ''/mcp'', protocolVersion = ''2024-11-05'' \<rparr>"

section \<open>Results\<close>

subsection \<open>Path composition\<close>

lemma replace_trailing_slash_last:
  "replace_trailing_slash s = (if s \<noteq> [] \<and> last s = CHR ''/'' then butlast s else s)"
  by (induction s rule: replace_trailing_slash.induct) auto

lemma startsWith_slash_hd: "startsWith_slash s = (s \<noteq> [] \<and> hd s = CHR ''/'')"
  by (cases s) auto

lemma joinPath_fallback_unreachable:
  "joinPath base suffix =
     (if base = ''/'' then [] else replace_trailing_slash base) @
     (if startsWith_slash suffix then suffix else ''/'' @ suffix)"
  by (cases suffix) (auto simp: joinPath_def Let_def)

text \<open>
  C5. For every prefix P and suffix S the composed path is
  \<open>normalize P @ ensureLeading S\<close>, with an empty result replaced by the root path,
  where \<open>normalize\<close> maps the root path to the empty string and otherwise removes one
  trailing slash, and \<open>ensureLeading\<close> prepends a slash unless S starts with one.
\<close>

theorem joinPath_refines_spec: "joinPath P S = spec_fullPath P S"
  by (simp add: joinPath_def spec_fullPath_def spec_normalize_def spec_ensureLeading_def
      replace_trailing_slash_last startsWith_slash_hd Let_def)

theorem joinPath_refines_spec_witness:
  "joinPath ''/git/'' ''mcp'' = ''/git/mcp'' \<and> spec_fullPath ''/git/'' ''mcp'' = ''/git/mcp''
   \<and> joinPath ''/'' ''/mcp'' = ''/mcp'' \<and> joinPath ''a//'' ''/x'' = ''a//x''"
  using joinPath_refines_spec [of "''/git/''" "''mcp''"]
  by (simp add: joinPath_def Let_def)

subsection \<open>The line framer\<close>

lemma split_lines_nonempty: "split_lines s \<noteq> []"
  by (induction s rule: split_lines.induct) (auto split: if_splits elim: cons_first.elims)

lemma split_lines_noLF: "LF \<notin> set l \<Longrightarrow> split_lines l = [l]"
  by (induction l rule: split_lines.induct) auto

lemma split_lines_LF: "LF \<notin> set l \<Longrightarrow> CR \<notin> set l \<Longrightarrow> split_lines (l @ LF # rest) = l # split_lines rest"
proof (induction l)
  case Nil
  then show ?case by (cases rest) auto
next
  case (Cons c l)
  then show ?case by (cases l) auto
qed

lemma split_lines_CRLF: "LF \<notin> set l \<Longrightarrow> CR \<notin> set l \<Longrightarrow> split_lines (l @ CR # LF # rest) = l # split_lines rest"
proof (induction l)
  case Nil
  then show ?case by (auto simp: CR_def LF_def)
next
  case (Cons c l)
  then show ?case by (cases l) (auto)
qed

lemma split_lines_single: "split_lines s = [l] \<Longrightarrow> l = s"
proof (induction s arbitrary: l rule: split_lines.induct)
  case 1
  then show ?case by simp
next
  case (2 c)
  then show ?case by (auto split: if_splits)
next
  case (3 c d cs)
  show ?case
  proof (cases "c = LF \<or> (c = CR \<and> d = LF)")
    case True
    with "3.prems" show ?thesis by (auto simp: split_lines_nonempty split: if_splits)
  next
    case False
    with "3.prems" have cf: "cons_first c (split_lines (d # cs)) = [l]" by auto
    then obtain l' where l': "split_lines (d # cs) = [l']" "l = c # l'"
      by (cases "split_lines (d # cs)") (auto simp: split_lines_nonempty)
    from "3.IH"(3)[of l'] False l' show ?thesis by auto
  qed
qed

lemma split_lines_Cons:
  "c \<noteq> LF \<Longrightarrow> \<not> (c = CR \<and> s \<noteq> [] \<and> hd s = LF) \<Longrightarrow>
   split_lines (c # s) = cons_first c (split_lines s)"
  by (cases s) auto

lemma split_lines_append:
  "split_lines (xs @ ys) = butlast (split_lines xs) @ split_lines (last (split_lines xs) @ ys)"
proof (induction xs rule: split_lines.induct)
  case 1
  then show ?case by simp
next
  case (2 c)
  then show ?case by (cases ys) (auto)
next
  case (3 c d cs)
  let ?S = "split_lines (d # cs)"
  have ne: "?S \<noteq> []" by (rule split_lines_nonempty)
  show ?case
  proof (cases "c = LF")
    case True
    with "3.IH"(1) ne show ?thesis by simp
  next
    case notLF: False
    show ?thesis
    proof (cases "c = CR \<and> d = LF")
      case True
      with notLF "3.IH"(2) split_lines_nonempty[of cs] show ?thesis by simp
    next
      case False
      with notLF have ih:
        "split_lines ((d # cs) @ ys) = butlast ?S @ split_lines (last ?S @ ys)"
        using "3.IH"(3) by simp
      from notLF False have lhs:
        "split_lines ((c # d # cs) @ ys) = cons_first c (split_lines ((d # cs) @ ys))"
        by auto
      from notLF False have xs: "split_lines (c # d # cs) = cons_first c ?S" by auto
      show ?thesis
      proof (cases ?S)
        case Nil
        with ne show ?thesis by simp
      next
        case (Cons l ls)
        show ?thesis
        proof (cases ls)
          case Nil
          with Cons have single: "?S = [l]" by simp
          then have l: "l = d # cs" by (rule split_lines_single)
          have "split_lines (c # (d # cs) @ ys) = cons_first c (split_lines ((d # cs) @ ys))"
            using notLF False by auto
          with single l xs ih show ?thesis by simp
        next
          case (Cons l' ls')
          with \<open>?S = l # ls\<close> have S: "?S = l # l' # ls'" by simp
          from S xs ih lhs show ?thesis by simp
        qed
      qed
    qed
  qed
qed

lemma messages_of_append: "messages_of (xs @ ys) = messages_of xs @ messages_of ys"
  by (induction xs rule: messages_of.induct) auto

lemma set_cons_first: "l \<in> set (cons_first c ls) \<Longrightarrow> l = [c] \<or> (\<exists>l'. l = c # l' \<and> l' \<in> set ls) \<or> l \<in> set ls"
  by (cases ls) auto

lemma split_lines_pieces_noLF: "l \<in> set (split_lines s) \<Longrightarrow> LF \<notin> set l"
proof (induction s arbitrary: l rule: split_lines.induct)
  case 1
  then show ?case by simp
next
  case (2 c)
  then show ?case by (auto split: if_splits)
next
  case (3 c d cs)
  show ?case
  proof (cases "c = LF \<or> (c = CR \<and> d = LF)")
    case True
    with 3 show ?thesis by (auto split: if_splits)
  next
    case False
    with "3.prems" have "l \<in> set (cons_first c (split_lines (d # cs)))" by auto
    from set_cons_first[OF this] "3.IH"(3) False show ?thesis by auto
  qed
qed

lemma last_split_lines_noLF: "LF \<notin> set (last (split_lines s))"
  using split_lines_pieces_noLF[of "last (split_lines s)" s] split_lines_nonempty[of s]
  by simp

lemma stdout_stream_lines:
  "LF \<notin> set buffer \<Longrightarrow>
   stdout_stream parse buffer chunks =
     (messages_of (map (read_line parse)
        (butlast (split_lines (buffer @ concat (map toString_utf8 chunks))))),
      last (split_lines (buffer @ concat (map toString_utf8 chunks))))"
proof (induction chunks arbitrary: buffer)
  case Nil
  then show ?case by (simp add: split_lines_noLF)
next
  case (Cons chunk chunks)
  let ?t = "toString_utf8 chunk" and ?T = "concat (map toString_utf8 chunks)"
  let ?b = "last (split_lines (buffer @ ?t))"
  have b: "LF \<notin> set ?b" by (rule last_split_lines_noLF)
  have split: "split_lines (buffer @ ?t @ ?T) =
      butlast (split_lines (buffer @ ?t)) @ split_lines (?b @ ?T)"
    using split_lines_append[of "buffer @ ?t" ?T] by simp
  have ne: "split_lines (?b @ ?T) \<noteq> []" by (rule split_lines_nonempty)
  show ?case
    using Cons.IH[OF b] split ne
    by (simp add: stdout_data_def Let_def split_lines_nonempty messages_of_append
        butlast_append)
qed


lemma split_wire_text:
  "\<forall>(l, sep) \<in> set items. plain_line l \<and> separator sep \<Longrightarrow> LF \<notin> set frag \<Longrightarrow>
   split_lines (wire_text items @ frag) = map fst items @ [frag]"
proof (induction items)
  case Nil
  then show ?case by (simp add: split_lines_noLF)
next
  case (Cons item items)
  obtain l sep where item: "item = (l, sep)" by (cases item)
  with Cons.prems have l: "LF \<notin> set l" "CR \<notin> set l" and sep: "sep = [LF] \<or> sep = [CR, LF]"
    by (auto simp: plain_line_def separator_def)
  from Cons have ih: "split_lines (wire_text items @ frag) = map fst items @ [frag]" by simp
  from sep show ?case
  proof
    assume "sep = [LF]"
    with item ih split_lines_LF[OF l] show ?thesis by simp
  next
    assume "sep = [CR, LF]"
    with item ih split_lines_CRLF[OF l] show ?thesis by simp
  qed
qed

lemma utf8_dec_ascii: "\<forall>b \<in> set bs. b < 0x80 \<Longrightarrow> utf8_dec None bs = bs"
  by (induction bs) (auto simp: utf8_lead_def)

lemma toString_utf8_ascii:
  assumes "\<forall>b \<in> set chunk. b < 0x80"
  shows "toString_utf8 chunk = map unat chunk"
proof -
  have small: "\<forall>n \<in> set (map unat chunk). n < 0x80"
    using assms by (auto simp: word_less_nat_alt)
  have units: "\<forall>n \<in> set (map unat chunk). utf16_units n = [n]"
    using small by (auto simp: utf16_units_def)
  have "concat (map utf16_units (map unat chunk)) = map unat chunk"
    using units by (induction chunk) auto
  with utf8_dec_ascii[OF small] show ?thesis by (simp add: toString_utf8_def)
qed

lemma framer_emits_lines:
  assumes "\<forall>(l, sep) \<in> set items. plain_line l \<and> separator sep" and "LF \<notin> set frag"
    and "concat (map toString_utf8 chunks) = wire_text items @ frag"
  shows "stdout_stream parse [] chunks =
           (messages_of (map (read_line parse \<circ> fst) items), frag)"
  using stdout_stream_lines[of "[]" parse chunks] split_wire_text[OF assms(1,2)] assms(3)
  by simp

lemma messages_of_round_trip:
  "\<forall>m \<in> set ms. parse (ser m) = Some m \<and> \<not> blank (ser m) \<Longrightarrow>
   messages_of (map (read_line parse \<circ> ser) ms) = ms"
  by (induction ms) (auto simp: read_line_def)

lemma framer_round_trip:
  assumes "\<forall>(m, sep) \<in> set ms.
             plain_line (ser m) \<and> \<not> blank (ser m) \<and> parse (ser m) = Some m \<and> separator sep"
    and "LF \<notin> set frag"
    and "concat (map toString_utf8 chunks) = wire_text (map (\<lambda>(m, sep). (ser m, sep)) ms) @ frag"
  shows "stdout_stream parse [] chunks = (map fst ms, frag)"
proof -
  have items: "\<forall>(l, sep) \<in> set (map (\<lambda>(m, sep). (ser m, sep)) ms). plain_line l \<and> separator sep"
    using assms(1) by auto
  have "map (read_line parse \<circ> fst) (map (\<lambda>(m, sep). (ser m, sep)) ms) =
        map (read_line parse \<circ> ser) (map fst ms)"
    by (simp add: case_prod_beta)
  moreover have "messages_of (map (read_line parse \<circ> ser) (map fst ms)) = map fst ms"
    using assms(1) by (intro messages_of_round_trip) auto
  ultimately have "messages_of (map (read_line parse \<circ> fst) (map (\<lambda>(m, sep). (ser m, sep)) ms)) =
        map fst ms"
    by (simp only:)
  with framer_emits_lines[OF items assms(2,3), of parse] show ?thesis
    by (simp only:)
qed

lemma concat_toString_utf8_ascii:
  "\<forall>b \<in> set (concat chunks). b < 0x80 \<Longrightarrow>
   concat (map toString_utf8 chunks) = map unat (concat chunks)"
  by (induction chunks) (auto simp: toString_utf8_ascii)

lemma framer_round_trip_ascii:
  assumes "\<forall>(m, sep) \<in> set ms.
             plain_line (ser m) \<and> \<not> blank (ser m) \<and> parse (ser m) = Some m \<and> separator sep"
    and "LF \<notin> set frag"
    and "\<forall>b \<in> set (concat chunks). b < 0x80"
    and "map unat (concat chunks) = wire_text (map (\<lambda>(m, sep). (ser m, sep)) ms) @ frag"
  shows "stdout_stream parse [] chunks = (map fst ms, frag)"
  using framer_round_trip[OF assms(1,2)] concat_toString_utf8_ascii[OF assms(3)] assms(4)
  by simp

text \<open>
  C4. The round trip is claimed for every chunking of the byte stream. The message
  \<^verbatim>\<open>"\<close>e-acute\<^verbatim>\<open>"\<close> followed by a line feed is the five bytes 22 C3 A9 22 0A. Delivered as
  one chunk, the framer hands the line 22 E9 22 to the parser; delivered as the chunks
  22 C3 and A9 22 0A, each chunk is decoded on its own and the parser is handed the line
  22 FFFD FFFD 22, a different string. (The parser here is the identity, so that the
  emitted messages are the lines themselves.)
\<close>

theorem stdout_stream_splits_character:
  "stdout_stream Some [] [[0x22, 0xC3, 0xA9, 0x22, 0x0A]] = ([[0x22, 0xE9, 0x22]], []) \<and>
   stdout_stream Some [] [[0x22, 0xC3], [0xA9, 0x22, 0x0A]] = ([[0x22, 0xFFFD, 0xFFFD, 0x22]], [])"
  by (simp add: stdout_data_def toString_utf8_def utf8_lead_def utf16_units_def LF_def CR_def
      read_line_def blank_def js_whitespace_def Let_def)

subsection \<open>The SSE gateway\<close>

lemma sse_exited_absorbing: "foldl (sse_step parse) (Exited c) evs = Exited c"
  by (induction evs) auto

lemma sse_step_length:
  "sse_step parse (Running bs) e = Running bs' \<Longrightarrow> length bs' = length bs"
  by (cases e) (auto simp: on_binding_def split: if_splits)

lemma sse_run_length:
  "foldl (sse_step parse) (Running bs) evs = Running bs' \<Longrightarrow> length bs' = length bs"
proof (induction evs arbitrary: bs)
  case Nil
  then show ?case by simp
next
  case (Cons e evs)
  show ?case
  proof (cases "sse_step parse (Running bs) e")
    case (Running bs1)
    with Cons show ?thesis using sse_step_length[OF Running] by simp
  next
    case (Exited c)
    with Cons.prems show ?thesis by (simp add: sse_exited_absorbing)
  qed
qed

text \<open>
  C7. In SSE mode, once any binding's child exits, the whole process has terminated,
  with the child's exit code, or with 1 when the code is \<^verbatim>\<open>null\<close>; nothing that
  happens later changes that.
\<close>

theorem sse_child_exit_terminates:
  assumes "foldl (sse_step parse) (sse_start (multiStdioToSse servers args)) evs = Running bs"
    and "i < length servers"
  shows "foldl (sse_step parse) (sse_start (multiStdioToSse servers args))
           (evs @ ChildExit i code # later) =
         Exited (case code of None \<Rightarrow> 1 | Some c \<Rightarrow> c)"
proof -
  have "length bs = length servers"
    using sse_run_length[OF assms(1)[unfolded sse_start_def]]
    by (simp add: multiStdioToSse_def)
  with assms show ?thesis by (simp add: sse_exited_absorbing)
qed

theorem sse_child_exit_terminates_witness:
  "foldl (sse_step (\<lambda>_. None))
     (sse_start (multiStdioToSse [\<lparr> path = ''/'', stdioCmd = ''echo'' \<rparr>]
        \<lparr> port = 8000, corsOrigin = None, healthEndpoints = [], headers = [],
          baseUrl = [], ssePath = ''/sse'', messagePath = ''/message'' \<rparr>))
     [Connect 0 ''s1'' 0, ChildExit 0 None, Connect 0 ''s2'' 1] = Exited 1
   \<and> foldl (sse_step (\<lambda>_. None))
     (sse_start (multiStdioToSse [\<lparr> path = ''/'', stdioCmd = ''echo'' \<rparr>]
        \<lparr> port = 8000, corsOrigin = None, healthEndpoints = [], headers = [],
          baseUrl = [], ssePath = ''/sse'', messagePath = ''/message'' \<rparr>))
     [Connect 0 ''s1'' 0, ChildExit 0 (Some 0)] = Exited 0"
proof -
  let ?start = "sse_start (multiStdioToSse [\<lparr> path = ''/'', stdioCmd = ''echo'' \<rparr>]
        \<lparr> port = 8000, corsOrigin = None, healthEndpoints = [], headers = [],
          baseUrl = [], ssePath = ''/sse'', messagePath = ''/message'' \<rparr>)"
  have run: "foldl (sse_step (\<lambda>_. None)) ?start [Connect 0 ''s1'' 0] =
      Running [\<lparr> sessions = [(''s1'', 0)], sse_stdin = [], sse_buffer = [], sse_sent = [] \<rparr>]"
    by (simp add: sse_start_def multiStdioToSse_def on_binding_def js_set_def)
  have i: "(0::nat) < length [\<lparr> path = ''/'', stdioCmd = ''echo'' \<rparr>]" by simp
  from sse_child_exit_terminates[OF run i, of None "[Connect 0 ''s2'' 1]"]
       sse_child_exit_terminates[OF run i, of "Some 0" "[]"]
  show ?thesis by simp
qed

text \<open>
  C9. The claim is that a POST whose \<^verbatim>\<open>sessionId\<close> identifies no active session is
  answered 503 with a plain-text reason. As the handler is written, a missing or empty
  \<^verbatim>\<open>sessionId\<close> is answered 400 with the text \<^verbatim>\<open>Missing sessionId parameter\<close>; a
  non-empty one that is not a key of the session table is answered 503 with the text
  \<^verbatim>\<open>No active SSE connection for session\<close> and the id; and no response the handler
  writes has a JSON body.
\<close>

theorem sse_post_without_session:
  "sse_post_message table None = Reply 400 (Text ''Missing sessionId parameter'') \<and>
   sse_post_message table (Some []) = Reply 400 (Text ''Missing sessionId parameter'') \<and>
   (sid \<noteq> [] \<and> map_of table sid = None \<longrightarrow>
      sse_post_message table (Some sid) =
        Reply 503 (Text (''No active SSE connection for session '' @ sid))) \<and>
   sse_post_message table q \<noteq> Reply n (Json j)"
  by (auto simp: sse_post_message_def js_get_def split: option.splits lookup.splits)

theorem sse_post_without_session_witness:
  "sse_post_message [(''s1'', 0)] (Some ''s2'') =
     Reply 503 (Text ''No active SSE connection for session s2'') \<and>
   sse_post_message [(''s1'', 0)] (Some ''constructor'') =
     Reply 503 (Text ''No active SSE connection for session constructor'') \<and>
   sse_post_message [(''s1'', 0)] (Some ''s1'') = HandedTo 0"
  using sse_post_without_session[of "[(''s1'', 0)]" "''s2''" None 0 JNull]
    sse_post_without_session[of "[(''s1'', 0)]" "''constructor''" None 0 JNull]
  by (simp add: sse_post_message_def js_get_def)

text \<open>
  The empty \<^verbatim>\<open>sessionId\<close> identifies no session of the table, and the answer is 400.
\<close>

theorem sse_post_empty_session_id:
  "map_of [(''s1'', 0::nat)] [] = None \<and>
   sse_post_message [(''s1'', 0)] (Some []) = Reply 400 (Text ''Missing sessionId parameter'')"
  by (simp add: sse_post_message_def)

subsection \<open>The stateless gateway: GET and DELETE\<close>

lemma dispatch_append:
  "dispatch matches (xs @ ys) m p =
     (case dispatch matches xs m p of Some h \<Rightarrow> Some h | None \<Rightarrow> dispatch matches ys m p)"
  by (induction matches xs m p rule: dispatch.induct) auto

lemma dispatch_health:
  "dispatch matches (map (\<lambda>ep. (GET, ep, h)) eps) m p =
     (if m = GET \<and> list_ex (\<lambda>ep. matches ep p) eps then Some h else None)"
  by (induction eps) auto

lemma dispatch_stateless_bindings:
  assumes "s \<in> set servers" and "matches (joinPath (binding_root s) suffix) p"
    and "m = GET \<or> m = DELETE"
  shows "dispatch matches (concat (map (\<lambda>s.
           (let fullPath = joinPath (binding_root s) suffix
            in [(POST, fullPath, StatelessPost (stdioCmd s) fullPath),
                (GET, fullPath, MethodNotAllowed),
                (DELETE, fullPath, MethodNotAllowed)])) servers)) m p =
         Some MethodNotAllowed"
  using assms by (induction servers) (auto simp: Let_def)

text \<open>
  C6. The claim is that every GET and every DELETE on a binding's streamable-HTTP path
  is answered 405 with the JSON-RPC error \<^verbatim>\<open>Method not allowed.\<close> and creates no child
  and no transport. The JSON body parser runs before the routes, and the health routes
  are registered before the bindings' routes. So, whatever the router's matching of
  paths is, of the requests that the body parser passes on: every DELETE whose path the
  route of a binding matches is answered so, and every GET whose path the route of a
  binding matches and the route of no health endpoint matches.
\<close>

theorem stateless_get_delete_refused:
  assumes "s \<in> set servers"
    and "matches (joinPath (binding_root s) (streamableHttpPath args)) p"
  shows "stateless_request matches (multiStdioToStatelessStreamableHttp servers args) w Passed
           DELETE p = (w, Reply 405 (Json method_not_allowed)) \<and>
         (\<not> list_ex (\<lambda>ep. matches ep p) (healthEndpoints args) \<longrightarrow>
          stateless_request matches (multiStdioToStatelessStreamableHttp servers args) w Passed
            GET p = (w, Reply 405 (Json method_not_allowed)))"
  using dispatch_stateless_bindings[where matches = matches and s = s and servers = servers
      and suffix = "streamableHttpPath args" and p = p and m = DELETE]
    dispatch_stateless_bindings[where matches = matches and s = s and servers = servers
      and suffix = "streamableHttpPath args" and p = p and m = GET]
    assms
  by (simp add: stateless_request_def multiStdioToStatelessStreamableHttp_def dispatch_append
      dispatch_health)

theorem stateless_get_delete_refused_witness:
  "stateless_request express_match
     (multiStdioToStatelessStreamableHttp
        [\<lparr> path = ''/git'', stdioCmd = ''git-mcp'' \<rparr>] example_stateless_args)
     \<lparr> spawned = [], transports_created = 0 \<rparr> Passed DELETE ''/git/mcp'' =
     (\<lparr> spawned = [], transports_created = 0 \<rparr>, Reply 405 (Json method_not_allowed)) \<and>
   stateless_request express_match
     (multiStdioToStatelessStreamableHttp
        [\<lparr> path = ''/git'', stdioCmd = ''git-mcp'' \<rparr>] example_stateless_args)
     \<lparr> spawned = [], transports_created = 0 \<rparr> Passed GET ''/Git/MCP/'' =
     (\<lparr> spawned = [], transports_created = 0 \<rparr>, Reply 405 (Json method_not_allowed))"
proof -
  let ?s = "\<lparr> path = ''/git'', stdioCmd = ''git-mcp'' \<rparr>"
  have full: "joinPath (binding_root ?s) (streamableHttpPath example_stateless_args) = ''/git/mcp''"
    by (simp add: example_stateless_args_def binding_root_def joinPath_def Let_def)
  have s: "?s \<in> set [?s]" by simp
  have m1: "express_match (joinPath (binding_root ?s) (streamableHttpPath example_stateless_args))
      ''/git/mcp''"
    unfolding full by (simp add: express_match_def ascii_lower_def)
  have m2: "express_match (joinPath (binding_root ?s) (streamableHttpPath example_stateless_args))
      ''/Git/MCP/''"
    unfolding full by (simp add: express_match_def ascii_lower_def)
  have h2: "\<not> list_ex (\<lambda>ep. express_match ep ''/Git/MCP/'') (healthEndpoints example_stateless_args)"
    by (simp add: example_stateless_args_def express_match_def ascii_lower_def)
  from stateless_get_delete_refused[where matches = express_match and s = ?s
         and servers = "[?s]" and args = example_stateless_args and p = "''/git/mcp''"
         and w = "\<lparr> spawned = [], transports_created = 0 \<rparr>"]
       stateless_get_delete_refused[where matches = express_match and s = ?s
         and servers = "[?s]" and args = example_stateless_args and p = "''/Git/MCP/''"
         and w = "\<lparr> spawned = [], transports_created = 0 \<rparr>"]
       s m1 m2 h2
  show ?thesis by simp
qed

text \<open>
  With \<^verbatim>\<open>--healthEndpoint /mcp\<close> and the default path, a GET on the binding's path is
  answered by the health route: 200 and \<^verbatim>\<open>ok\<close>.
\<close>

theorem stateless_get_on_health_path:
  "stateless_request express_match
     (multiStdioToStatelessStreamableHttp [\<lparr> path = ''/'', stdioCmd = ''echo-mcp'' \<rparr>]
        (example_stateless_args\<lparr> healthEndpoints := [''/mcp''] \<rparr>))
     \<lparr> spawned = [], transports_created = 0 \<rparr> Passed GET ''/mcp'' =
     (\<lparr> spawned = [], transports_created = 0 \<rparr>, Reply 200 (Text ''ok'')) \<and>
   joinPath (binding_root \<lparr> path = ''/'', stdioCmd = ''echo-mcp'' \<rparr>) ''/mcp'' = ''/mcp''"
  by (simp add: stateless_request_def multiStdioToStatelessStreamableHttp_def
      example_stateless_args_def binding_root_def joinPath_def express_match_def
      ascii_lower_def Let_def)

text \<open>
  The same happens when the health endpoint differs from the binding's path in the case
  of letters or in a slash at the end only.
\<close>

lemma stateless_get_on_health_path_variants:
  "stateless_request express_match
     (multiStdioToStatelessStreamableHttp [\<lparr> path = ''/'', stdioCmd = ''echo-mcp'' \<rparr>]
        (example_stateless_args\<lparr> healthEndpoints := [''/MCP''] \<rparr>))
     \<lparr> spawned = [], transports_created = 0 \<rparr> Passed GET ''/mcp'' =
     (\<lparr> spawned = [], transports_created = 0 \<rparr>, Reply 200 (Text ''ok'')) \<and>
   stateless_request express_match
     (multiStdioToStatelessStreamableHttp [\<lparr> path = ''/'', stdioCmd = ''echo-mcp'' \<rparr>]
        (example_stateless_args\<lparr> healthEndpoints := [''/mcp/''] \<rparr>))
     \<lparr> spawned = [], transports_created = 0 \<rparr> Passed GET ''/mcp'' =
     (\<lparr> spawned = [], transports_created = 0 \<rparr>, Reply 200 (Text ''ok''))"
  by (simp add: stateless_request_def multiStdioToStatelessStreamableHttp_def
      example_stateless_args_def binding_root_def joinPath_def express_match_def
      ascii_lower_def Let_def)

text \<open>
  A request that the body parser refuses reaches no route: a DELETE on the binding's
  path with a body declared as JSON that does not parse is not answered 405.
\<close>

lemma stateless_body_refused:
  "stateless_request express_match
     (multiStdioToStatelessStreamableHttp [\<lparr> path = ''/'', stdioCmd = ''echo-mcp'' \<rparr>]
        example_stateless_args)
     \<lparr> spawned = [], transports_created = 0 \<rparr> Refused DELETE ''/mcp'' =
     (\<lparr> spawned = [], transports_created = 0 \<rparr>, BodyRefused)"
  by (simp add: stateless_request_def)

subsection \<open>Single-binding entry points\<close>

text \<open>
  C10. For every command and every argument record, each single-binding entry point is
  the multi-server entry point of its mode on the one binding of the command to the
  root path.
\<close>

theorem single_binding_is_multi_at_root:
  "stdioToSse cmd sse = multiStdioToSse [\<lparr> path = ''/'', stdioCmd = cmd \<rparr>] sse \<and>
   stdioToWs cmd ws = multiStdioToWs [\<lparr> path = ''/'', stdioCmd = cmd \<rparr>] ws \<and>
   stdioToStatefulStreamableHttp cmd stateful =
     multiStdioToStatefulStreamableHttp [\<lparr> path = ''/'', stdioCmd = cmd \<rparr>] stateful \<and>
   stdioToStatelessStreamableHttp cmd stateless =
     multiStdioToStatelessStreamableHttp [\<lparr> path = ''/'', stdioCmd = cmd \<rparr>] stateless"
  by (simp add: stdioToSse_def stdioToWs_def stdioToStatefulStreamableHttp_def
      stdioToStatelessStreamableHttp_def)

theorem single_binding_is_multi_at_root_witness:
  "routes (stdioToStatelessStreamableHttp ''echo-mcp'' example_stateless_args) =
     [(GET, ''/healthz'', Health []),
      (POST, ''/mcp'', StatelessPost ''echo-mcp'' ''/mcp''),
      (GET, ''/mcp'', MethodNotAllowed),
      (DELETE, ''/mcp'', MethodNotAllowed)] \<and>
   routes (stdioToSse ''echo-mcp'' (sse_args_of default_argv)) =
     [(GET, ''/sse'', SseConnect 0), (POST, ''/message'', SseMessage 0)] \<and>
   children (stdioToSse ''echo-mcp'' (sse_args_of default_argv)) = [''echo-mcp''] \<and>
   ws_endpoints (stdioToWs ''echo-mcp'' (ws_args_of default_argv)) = [''/message''] \<and>
   routes (stdioToStatefulStreamableHttp ''echo-mcp'' (stateful_args_of default_argv None)) =
     [(POST, ''/mcp'', StatefulPost 0), (GET, ''/mcp'', StatefulSession 0),
      (DELETE, ''/mcp'', StatefulSession 0)]"
  using single_binding_is_multi_at_root[of "''echo-mcp''" "sse_args_of default_argv"
      "ws_args_of default_argv" "stateful_args_of default_argv None" example_stateless_args]
  by (simp add: multiStdioToStatelessStreamableHttp_def multiStdioToSse_def multiStdioToWs_def
      multiStdioToStatefulStreamableHttp_def example_stateless_args_def sse_args_of_def
      ws_args_of_def stateful_args_of_def default_argv_def binding_root_def joinPath_def Let_def)

subsection \<open>Start-up validation of the session timeout\<close>

lemma single_stateful_rejects_timeout:
  assumes "arg_stdio a = Some [cmd]" and "cmd \<noteq> []" and "CHR ''='' \<notin> set cmd"
    and "\<not> truthy_string (arg_sse a)" and "\<not> truthy_string (arg_streamableHttp a)"
    and "\<not> truthy_string (arg_multiServerConfig a)"
    and "arg_outputTransport a = Some ''streamableHttp''" and "arg_stateful a"
    and "arg_sessionTimeout a = Some t" and "t \<le> 0"
  shows "main a file = Exit 1"
  using assms by (simp add: main_def start_single_def Let_def)

text \<open>With the timeout 0 the stateful gateway has no session counter at all.\<close>

lemma zero_timeout_has_no_counter:
  "\<not> has_counter (stateful_start config (Some 0)) \<and> has_counter (stateful_start config (Some 250))"
  by (simp add: has_counter_def stateful_start_def)

text \<open>
  C8. The claim is that every invocation selecting the stateful adapter with a session
  timeout of 0 or less exits with code 1 at start-up, the multi-server invocations
  included. With \<^verbatim>\<open>--sessionTimeout 0\<close>, the single \<^verbatim>\<open>--stdio\<close> invocation exits
  with code 1, while the invocations with \<^verbatim>\<open>--multiServerConfig\<close> and with
  \<^verbatim>\<open>--stdio name=command\<close> start the stateful gateway with the timeout 0.
\<close>

theorem multi_stateful_accepts_zero_timeout:
  "main (default_argv\<lparr> arg_stdio := Some [''echo-mcp''],
           arg_outputTransport := Some ''streamableHttp'', arg_stateful := True,
           arg_sessionTimeout := Some 0 \<rparr>) Unreadable = Exit 1 \<and>
   main (default_argv\<lparr> arg_multiServerConfig := Some ''servers.json'',
           arg_outputTransport := Some ''streamableHttp'', arg_stateful := True,
           arg_sessionTimeout := Some 0 \<rparr>) (Parsed example_config) =
     Started (Call_multiStdioToStatefulStreamableHttp
       [\<lparr> path = ''/git'', stdioCmd = ''git-mcp'' \<rparr>,
        \<lparr> path = ''/docker'', stdioCmd = ''docker-mcp'' \<rparr>]
       \<lparr> port = 8000, corsOrigin = None, healthEndpoints = [], headers = [],
         streamableHttpPath = ''/mcp'', sessionTimeout = Some 0 \<rparr>) \<and>
   main (default_argv\<lparr> arg_stdio := Some [''git=git-mcp'', ''docker=docker-mcp''],
           arg_outputTransport := Some ''streamableHttp'', arg_stateful := True,
           arg_sessionTimeout := Some 0 \<rparr>) Unreadable =
     Started (Call_multiStdioToStatefulStreamableHttp
       [\<lparr> path = ''/git'', stdioCmd = ''git-mcp'' \<rparr>,
        \<lparr> path = ''/docker'', stdioCmd = ''docker-mcp'' \<rparr>]
       \<lparr> port = 8000, corsOrigin = None, healthEndpoints = [], headers = [],
         streamableHttpPath = ''/mcp'', sessionTimeout = Some 0 \<rparr>)"
  by (simp add: main_def start_single_def start_multi_def default_argv_def example_config_def
      truthy_string_def config_servers_def string_field_def with_leading_slash_def
      stateful_args_of_def js_trim_def space_sequences_def Let_def)

subsection \<open>The stateless gateway: automatic initialization\<close>

lemma child_message_forwards:
  "js_prop r ''id'' \<noteq> TypeError \<Longrightarrow> (\<forall>ident. tracked st = Some ident \<longrightarrow> \<not> answers r ident) \<Longrightarrow>
   child_message r st = st\<lparr> sent := sent st @ [r] \<rparr>"
  by (auto simp: child_message_def split: option.splits)

lemma child_messages_forward:
  assumes "\<forall>r \<in> set rs. js_prop r ''id'' \<noteq> TypeError \<and> (\<forall>ident. tracked st = Some ident \<longrightarrow> \<not> answers r ident)"
  shows "foldl (post_step isInit pv ver) st (map FromChild rs) = st\<lparr> sent := sent st @ rs \<rparr>"
  using assms
proof (induction rs arbitrary: st)
  case Nil
  then show ?case by simp
next
  case (Cons r rs)
  then have step: "child_message r st = st\<lparr> sent := sent st @ [r] \<rparr>"
    by (intro child_message_forwards) auto
  have "tracked (st\<lparr> sent := sent st @ [r] \<rparr>) = tracked st" by (simp add: tracked_def)
  with Cons.prems have "\<forall>r' \<in> set rs. js_prop r' ''id'' \<noteq> TypeError \<and>
      (\<forall>ident. tracked (st\<lparr> sent := sent st @ [r] \<rparr>) = Some ident \<longrightarrow> \<not> answers r' ident)"
    by simp
  from Cons.IH[OF this] step show ?case by simp
qed

text \<open>
  The handshake as intended: when the only message of the client before the child's
  answer is \<open>m\<close>, not an initialize request, then after the child has answered the
  request with the generated id the child's stdin holds the initialize request, the
  initialized notification and \<open>m\<close>, and the client has been sent exactly the child's
  other messages.
\<close>

lemma auto_initialize_handshake:
  assumes "\<not> isInit m"
    and "\<forall>r \<in> set before. js_prop r ''id'' \<noteq> TypeError \<and> \<not> answers r (auto_init_id now random)"
    and "answers response (auto_init_id now random)"
  shows "post_run isInit pv ver
           (FromClient m now random # map FromChild before @ [FromChild response]) =
         \<lparr> isInitialized = True, initializeRequestId = None, isAutoInitializing = False,
           pendingOriginalMessage = None, stdout_buffer = [],
           child_stdin = [createInitializeRequest (auto_init_id now random) pv ver,
                          createInitializedNotification, m],
           sent = before \<rparr>"
proof -
  let ?rid = "auto_init_id now random"
  let ?st1 = "\<lparr> isInitialized = False, initializeRequestId = Some ?rid, isAutoInitializing = True,
           pendingOriginalMessage = Some m, stdout_buffer = [],
           child_stdin = [createInitializeRequest ?rid pv ver], sent = [] \<rparr>"
  have first: "post_step isInit pv ver interposer_start (FromClient m now random) = ?st1"
    using assms(1) by (simp add: transport_onmessage_def interposer_start_def)
  have tr: "tracked ?st1 = Some ?rid" by (simp add: tracked_def auto_init_id_def)
  have mid: "foldl (post_step isInit pv ver) ?st1 (map FromChild before) = ?st1\<lparr> sent := before \<rparr>"
    using child_messages_forward[of before ?st1 isInit pv ver] assms(2) tr by simp
  have tr2: "tracked (?st1\<lparr> sent := before \<rparr>) = Some ?rid" by (simp add: tracked_def auto_init_id_def)
  have notnull: "js_prop response ''id'' \<noteq> TypeError"
    using assms(3) by (auto simp: answers_def)
  have last: "child_message response (?st1\<lparr> sent := before \<rparr>) =
      \<lparr> isInitialized = True, initializeRequestId = None, isAutoInitializing = False,
           pendingOriginalMessage = None, stdout_buffer = [],
           child_stdin = [createInitializeRequest ?rid pv ver, createInitializedNotification, m],
           sent = before \<rparr>"
    using assms(3) notnull tr2 by (simp add: child_message_def)
  show ?thesis
    unfolding post_run_def using first mid last by simp
qed

lemma auto_init_id_prefix: "\<exists>rest. auto_init_id now random = JStr (''init_'' @ rest)"
  by (simp add: auto_init_id_def)

text \<open>Once the handshake is over, every message passes in both directions.\<close>

lemma initialized_stays:
  "isInitialized st \<and> \<not> isAutoInitializing st \<Longrightarrow>
   isInitialized (post_step isInit pv ver st e) \<and> \<not> isAutoInitializing (post_step isInit pv ver st e)"
  by (cases e) (auto simp: transport_onmessage_def child_message_def Let_def
      split: option.splits property.splits bool.splits)

lemma after_initialization_step:
  assumes "isInitialized st \<and> \<not> isAutoInitializing st"
    and "\<forall>r. e = FromChild r \<longrightarrow> js_prop r ''id'' \<noteq> TypeError"
  shows "sent (post_step isInit pv ver st e) = sent st @ from_child [e] \<and>
         child_stdin (post_step isInit pv ver st e) = child_stdin st @ from_client [e]"
  using assms
  by (cases e) (auto simp: transport_onmessage_def child_message_def Let_def
      split: option.splits property.splits bool.splits)

lemma from_child_append [simp]: "from_child (xs @ ys) = from_child xs @ from_child ys"
  by (induction xs rule: from_child.induct) auto
lemma from_client_append [simp]: "from_client (xs @ ys) = from_client xs @ from_client ys"
  by (induction xs rule: from_client.induct) auto

lemma after_initialization:
  assumes "isInitialized st \<and> \<not> isAutoInitializing st"
    and "\<forall>r. FromChild r \<in> set es \<longrightarrow> js_prop r ''id'' \<noteq> TypeError"
  shows "sent (foldl (post_step isInit pv ver) st es) = sent st @ from_child es \<and>
         child_stdin (foldl (post_step isInit pv ver) st es) = child_stdin st @ from_client es"
  using assms
proof (induction es arbitrary: st)
  case Nil
  then show ?case by simp
next
  case (Cons e es)
  have e: "\<forall>r. e = FromChild r \<longrightarrow> js_prop r ''id'' \<noteq> TypeError" using Cons.prems(2) by simp
  note s = after_initialization_step[OF Cons.prems(1) e, of isInit pv ver]
  have "sent (foldl (post_step isInit pv ver) (post_step isInit pv ver st e) es) =
          sent (post_step isInit pv ver st e) @ from_child es \<and>
        child_stdin (foldl (post_step isInit pv ver) (post_step isInit pv ver st e) es) =
          child_stdin (post_step isInit pv ver st e) @ from_client es"
    using Cons.prems(2) by (intro Cons.IH initialized_stays[OF Cons.prems(1)]) auto
  with s show ?case
    using from_child_append[of "[e]" es] from_client_append[of "[e]" es] by simp
qed

text \<open>
  C1. The claim is that the child's stdin begins with the generated initialize request,
  the initialized notification and the first message \<open>m\<close> of the POST, and that the
  answer to the generated request is not forwarded. For a POST whose body is a batch of
  two \<^verbatim>\<open>tools/list\<close> requests, \<^verbatim>\<open>onmessage\<close> runs twice before the child answers:
  the second call overwrites the pending message and the tracked id and writes a second
  initialize request. The child's stdin then holds two initialize requests, the
  notification and the second request only; the first request is never written, and the
  answer to the first generated request is forwarded to the client.
\<close>

theorem batch_loses_first_message:
  "child_stdin (post_run has_initialize_method ''2024-11-05'' ''3.4.3''
      [FromClient (tools_list 1) ''1767225600000'' ''k3j9x0q2a'',
       FromClient (tools_list 2) ''1767225600000'' ''p0o9i8u7y'',
       FromChild (result_for (auto_init_id ''1767225600000'' ''k3j9x0q2a'')),
       FromChild (result_for (auto_init_id ''1767225600000'' ''p0o9i8u7y''))]) =
     [createInitializeRequest (auto_init_id ''1767225600000'' ''k3j9x0q2a'') ''2024-11-05'' ''3.4.3'',
      createInitializeRequest (auto_init_id ''1767225600000'' ''p0o9i8u7y'') ''2024-11-05'' ''3.4.3'',
      createInitializedNotification,
      tools_list 2] \<and>
   sent (post_run has_initialize_method ''2024-11-05'' ''3.4.3''
      [FromClient (tools_list 1) ''1767225600000'' ''k3j9x0q2a'',
       FromClient (tools_list 2) ''1767225600000'' ''p0o9i8u7y'',
       FromChild (result_for (auto_init_id ''1767225600000'' ''k3j9x0q2a'')),
       FromChild (result_for (auto_init_id ''1767225600000'' ''p0o9i8u7y''))]) =
     [result_for (auto_init_id ''1767225600000'' ''k3j9x0q2a'')]"
  by (simp add: post_run_def interposer_start_def transport_onmessage_def child_message_def
      tracked_def answers_def has_initialize_method_def tools_list_def result_for_def
      auto_init_id_def)

subsection \<open>The stateful gateway: sessions\<close>

lemma set_js_delete: "set (js_delete tbl k) = {(k', v) \<in> set tbl. k' \<noteq> k}"
  by (auto simp: js_delete_def)

lemma map_of_js_delete: "map_of (js_delete tbl k) k' = (if k' = k then None else map_of tbl k')"
  by (induction tbl) (auto simp: js_delete_def)

lemma in_js_set:
  assumes "(k', v') \<in> set (js_set tbl k v)"
  shows "(k', v') = (k, v) \<or> ((k', v') \<in> set tbl \<and> k' \<noteq> k)"
proof (cases "k \<in> fst ` set tbl")
  case True
  with assms show ?thesis by (auto simp: js_set_def split: if_splits)
next
  case False
  with assms have "(k', v') = (k, v) \<or> (k', v') \<in> set tbl" by (auto simp: js_set_def)
  moreover have "(k', v') \<in> set tbl \<Longrightarrow> k' \<noteq> k" using False by force
  ultimately show ?thesis by blast
qed

lemma map_of_replace:
  "map_of (map (\<lambda>(k', v'). if k' = k then (k', v) else (k', v')) tbl) k' =
     (if k' = k then (case map_of tbl k of None \<Rightarrow> None | Some _ \<Rightarrow> Some v) else map_of tbl k')"
  by (induction tbl) auto

lemma map_of_js_set: "map_of (js_set tbl k v) k' = (if k' = k then Some v else map_of tbl k')"
proof (cases "k \<in> fst ` set tbl")
  case True
  then obtain v0 where "map_of tbl k = Some v0"
    by (cases "map_of tbl k") (auto simp: map_of_eq_None_iff)
  with True show ?thesis by (simp add: js_set_def map_of_replace)
next
  case False
  then have "map_of tbl k = None" by (simp add: map_of_eq_None_iff)
  with False show ?thesis by (auto simp: js_set_def map_add_def split: option.splits)
qed

lemma counter_call_fields [simp]:
  "transports (counter_call c st) = transports st"
  "session_ids (counter_call c st) = session_ids st"
  "reported (counter_call c st) = reported st"
  "killed (counter_call c st) = killed st"
  "expired (counter_call c st) = expired st"
  "session_timeout (counter_call c st) = session_timeout st"
  "has_counter (counter_call c st) = has_counter st"
  "transport_sessionId (counter_call c st) = transport_sessionId st"
  "wirings (counter_call c st) = wirings st"
  "binding_config (counter_call c st) = binding_config st"
  by (auto simp: counter_call_def has_counter_def transport_sessionId_def)

lemma table_ok_iff:
  "table_ok st \<longleftrightarrow>
     (\<forall>sid t. (sid, t) \<in> set (transports st) \<longrightarrow>
        sid \<noteq> [] \<and> transport_sessionId st t = Some sid \<and> t \<notin> set (reported st)) \<and>
     (\<forall>t \<in> set (reported st). t < length (session_ids st)) \<and>
     (has_counter st \<or> counter_calls st = [])"
  by (auto simp: table_ok_def list_all_iff)

lemma counter_calls_counter_call:
  "counter_calls (counter_call c st) =
     (if has_counter st then counter_calls st @ [c] else counter_calls st)"
  by (simp add: counter_call_def)

lemma table_ok_counter_call: "table_ok st \<Longrightarrow> table_ok (counter_call c st)"
  unfolding table_ok_iff by (auto simp: counter_calls_counter_call)

lemma transport_onerror_eq: "transport_onerror = transport_onclose"
  by (intro ext) (simp add: transport_onerror_def transport_onclose_def)

lemma onclose_fields [simp]:
  "session_ids (transport_onclose t st) = session_ids st"
  "reported (transport_onclose t st) = reported st"
  "expired (transport_onclose t st) = expired st"
  "session_timeout (transport_onclose t st) = session_timeout st"
  "has_counter (transport_onclose t st) = has_counter st"
  "killed (transport_onclose t st) = killed st @ [t]"
  "wirings (transport_onclose t st) = wirings st"
  "binding_config (transport_onclose t st) = binding_config st"
  by (auto simp: transport_onclose_def Let_def has_counter_def split: option.splits)

lemma onclose_transports:
  "transports (transport_onclose t st) =
     (case transport_sessionId st t of
        None \<Rightarrow> transports st
      | Some sid \<Rightarrow> if sid \<noteq> [] then js_delete (transports st) sid else transports st)"
  by (auto simp: transport_onclose_def Let_def split: option.splits)

lemma onclose_counter_calls:
  "counter_calls (transport_onclose t st) =
     (case transport_sessionId st t of
        None \<Rightarrow> counter_calls st
      | Some sid \<Rightarrow>
          if sid \<noteq> [] \<and> has_counter st then counter_calls st @ [Clear sid False]
          else counter_calls st)"
  by (auto simp: transport_onclose_def Let_def counter_call_def split: option.splits)

lemma sessionId_cong:
  "session_ids st' = session_ids st \<Longrightarrow> transport_sessionId st' = transport_sessionId st"
  by (intro ext) (simp add: transport_sessionId_def)

lemma sessionId_update [simp]:
  "transport_sessionId (st\<lparr> transports := tr \<rparr>) = transport_sessionId st"
  "transport_sessionId (st\<lparr> counter_calls := cc \<rparr>) = transport_sessionId st"
  "transport_sessionId (st\<lparr> killed := ki \<rparr>) = transport_sessionId st"
  "transport_sessionId (st\<lparr> reported := re \<rparr>) = transport_sessionId st"
  "transport_sessionId (st\<lparr> expired := ex \<rparr>) = transport_sessionId st"
  "transport_sessionId (st\<lparr> wirings := ws \<rparr>) = transport_sessionId st"
  by (simp_all add: transport_sessionId_def fun_eq_iff)

lemma has_counter_update [simp]:
  "has_counter (st\<lparr> transports := tr \<rparr>) = has_counter st"
  "has_counter (st\<lparr> counter_calls := cc \<rparr>) = has_counter st"
  "has_counter (st\<lparr> killed := ki \<rparr>) = has_counter st"
  "has_counter (st\<lparr> reported := re \<rparr>) = has_counter st"
  "has_counter (st\<lparr> expired := ex \<rparr>) = has_counter st"
  "has_counter (st\<lparr> session_ids := ids \<rparr>) = has_counter st"
  "has_counter (st\<lparr> wirings := ws \<rparr>) = has_counter st"
  by (simp_all add: has_counter_def)

lemma table_okI:
  assumes "\<And>sid t. (sid, t) \<in> set (transports st) \<Longrightarrow>
             sid \<noteq> [] \<and> transport_sessionId st t = Some sid \<and> t \<notin> set (reported st)"
    and "\<And>t. t \<in> set (reported st) \<Longrightarrow> t < length (session_ids st)"
    and "has_counter st \<or> counter_calls st = []"
  shows "table_ok st"
  unfolding table_ok_iff using assms by blast

lemma table_ok_entry:
  assumes "table_ok st" and "(sid, t) \<in> set (transports st)"
  shows "sid \<noteq> []" and "transport_sessionId st t = Some sid" and "t \<notin> set (reported st)"
    and "t < length (session_ids st)"
proof -
  from assms show "sid \<noteq> []" "transport_sessionId st t = Some sid" "t \<notin> set (reported st)"
    unfolding table_ok_iff by blast+
  then show "t < length (session_ids st)"
    by (auto simp: transport_sessionId_def split: if_splits)
qed

lemma table_ok_reported:
  "table_ok st \<Longrightarrow> t \<in> set (reported st) \<Longrightarrow> t < length (session_ids st)"
  unfolding table_ok_iff by blast

lemma table_ok_calls: "table_ok st \<Longrightarrow> has_counter st \<or> counter_calls st = []"
  unfolding table_ok_iff by blast

lemma table_ok_close:
  assumes ok: "table_ok st" and t: "t < length (session_ids st)"
  shows "table_ok ((transport_onclose t st)\<lparr> reported := reported st @ [t] \<rparr>)"
    (is "table_ok ?st")
proof (rule table_okI)
  have sid_eq: "transport_sessionId ?st = transport_sessionId st"
    by (rule sessionId_cong) simp
  fix k t' assume a: "(k, t') \<in> set (transports ?st)"
  then have a': "(k, t') \<in> set (transports (transport_onclose t st))" by simp
  have old: "(k, t') \<in> set (transports st)"
  proof (cases "transport_sessionId st t")
    case None
    with a' show ?thesis by (simp add: onclose_transports)
  next
    case (Some sid)
    with a' show ?thesis by (cases "sid = []") (simp_all add: onclose_transports set_js_delete)
  qed
  note f = table_ok_entry[OF ok old]
  have "t' \<noteq> t"
  proof
    assume eq: "t' = t"
    with f have s: "transport_sessionId st t = Some k" by simp
    with a' f(1) show False by (simp add: onclose_transports set_js_delete)
  qed
  with f sid_eq show "k \<noteq> [] \<and> transport_sessionId ?st t' = Some k \<and> t' \<notin> set (reported ?st)"
    by simp
next
  fix t' assume "t' \<in> set (reported ?st)"
  then have "t' \<in> set (reported st) \<or> t' = t" by auto
  with table_ok_reported[OF ok] t show "t' < length (session_ids ?st)" by auto
next
  from table_ok_calls[OF ok]
  show "has_counter ?st \<or> counter_calls ?st = []"
    by (cases "transport_sessionId st t") (auto simp: onclose_counter_calls)
qed

lemma table_ok_expired [simp]: "table_ok (st\<lparr> expired := e \<rparr>) = table_ok st"
  by (simp add: table_ok_def)

lemma table_ok_wirings [simp]: "table_ok (st\<lparr> wirings := ws \<rparr>) = table_ok st"
  by (simp add: table_ok_def)

lemma table_ok_on_wiring [simp]: "table_ok (on_wiring t f st) = table_ok st"
  by (simp add: on_wiring_def)

lemma table_ok_delete:
  "table_ok st \<Longrightarrow> table_ok (st\<lparr> transports := js_delete (transports st) k \<rparr>)"
  unfolding table_ok_iff
  by (auto simp: set_js_delete)

lemma js_get_Own: "js_get tbl k = Own v \<longleftrightarrow> map_of tbl k = Some v"
  by (auto simp: js_get_def split: option.splits)

lemma table_ok_lookup:
  assumes "table_ok st" and "map_of (transports st) sid = Some t"
  shows "sid \<noteq> []" and "transport_sessionId st t = Some sid" and "t \<notin> set (reported st)"
    and "t < length (session_ids st)"
proof -
  from assms(2) have "(sid, t) \<in> set (transports st)" by (rule map_of_SomeD)
  with assms(1) show "sid \<noteq> []" "transport_sessionId st t = Some sid" "t \<notin> set (reported st)"
    unfolding table_ok_iff by auto
  then show "t < length (session_ids st)"
    by (auto simp: transport_sessionId_def split: if_splits)
qed

lemma table_ok_onExpire: "table_ok st \<Longrightarrow> table_ok (onExpire sid st)"
proof -
  assume ok: "table_ok st"
  let ?st0 = "st\<lparr> expired := expired st @ [sid] \<rparr>"
  have ok0: "table_ok ?st0" using ok by simp
  show ?thesis
  proof (cases "js_get (transports st) sid")
    case (Own t)
    then have "map_of (transports ?st0) sid = Some t" by (simp add: js_get_Own)
    from table_ok_lookup(4)[OF ok0 this] have "t < length (session_ids ?st0)" .
    from table_ok_delete[OF table_ok_close[OF ok0 this]] Own show ?thesis
      by (simp add: onExpire_def Let_def transport_close_def)
  next
    case Inherited
    with ok0 show ?thesis by (simp add: onExpire_def Let_def)
  next
    case Missing
    with table_ok_delete[OF ok0, of sid] show ?thesis by (simp add: onExpire_def Let_def)
  qed
qed

lemma sessionId_created:
  "t < length (session_ids st) \<Longrightarrow>
   transport_sessionId (st\<lparr> session_ids := session_ids st @ [g] \<rparr>) t = transport_sessionId st t"
  by (simp add: transport_sessionId_def nth_append)

lemma sessionId_new:
  "transport_sessionId (st\<lparr> session_ids := session_ids st @ [g] \<rparr>) (length (session_ids st)) = g"
  by (simp add: transport_sessionId_def)

lemma table_ok_created:
  assumes ok: "table_ok st"
  shows "table_ok (st\<lparr> session_ids := session_ids st @ [g] \<rparr>)"
proof (rule table_okI)
  fix sid t assume "(sid, t) \<in> set (transports (st\<lparr> session_ids := session_ids st @ [g] \<rparr>))"
  then have e: "(sid, t) \<in> set (transports st)" by simp
  note f = table_ok_entry[OF ok e]
  from f sessionId_created[OF f(4), of g]
  show "sid \<noteq> [] \<and> transport_sessionId (st\<lparr> session_ids := session_ids st @ [g] \<rparr>) t = Some sid \<and>
        t \<notin> set (reported (st\<lparr> session_ids := session_ids st @ [g] \<rparr>))"
    by simp
next
  fix t assume "t \<in> set (reported (st\<lparr> session_ids := session_ids st @ [g] \<rparr>))"
  then have "t \<in> set (reported st)" by simp
  from table_ok_reported[OF ok this]
  show "t < length (session_ids (st\<lparr> session_ids := session_ids st @ [g] \<rparr>))" by simp
next
  from table_ok_calls[OF ok]
  show "has_counter (st\<lparr> session_ids := session_ids st @ [g] \<rparr>) \<or>
        counter_calls (st\<lparr> session_ids := session_ids st @ [g] \<rparr>) = []" by simp
qed

lemma table_ok_registered:
  assumes ok: "table_ok st" and new: "new \<noteq> []"
  shows "table_ok (st\<lparr> session_ids := session_ids st @ [Some new],
                       transports := js_set (transports st) new (length (session_ids st)) \<rparr>)"
    (is "table_ok ?st")
proof (rule table_okI)
  let ?t = "length (session_ids st)"
  let ?created = "st\<lparr> session_ids := session_ids st @ [Some new] \<rparr>"
  have sid: "transport_sessionId ?st = transport_sessionId ?created"
    by (rule sessionId_cong) simp
  fix sid t assume "(sid, t) \<in> set (transports ?st)"
  then have "(sid, t) \<in> set (js_set (transports st) new ?t)" by simp
  from in_js_set[OF this] consider "sid = new" "t = ?t" | "(sid, t) \<in> set (transports st)"
    by auto
  then show "sid \<noteq> [] \<and> transport_sessionId ?st t = Some sid \<and> t \<notin> set (reported ?st)"
  proof cases
    case 1
    have "?t \<notin> set (reported st)" using table_ok_reported[OF ok, of ?t] by auto
    with 1 new sid sessionId_new[of st "Some new"] show ?thesis by simp
  next
    case 2
    note f = table_ok_entry[OF ok 2]
    from f sid sessionId_created[OF f(4), of "Some new"] show ?thesis by simp
  qed
next
  fix t assume "t \<in> set (reported ?st)"
  then have "t \<in> set (reported st)" by simp
  from table_ok_reported[OF ok this] show "t < length (session_ids ?st)" by simp
next
  from table_ok_calls[OF ok] show "has_counter ?st \<or> counter_calls ?st = []" by simp
qed

lemma table_ok_wired:
  "table_ok (st\<lparr> session_ids := ids, wirings := ws, transports := tr \<rparr>) =
   table_ok (st\<lparr> session_ids := ids, transports := tr \<rparr>)"
  by (simp add: table_ok_def transport_sessionId_def has_counter_def)

lemma stateful_post_cases:
  "fst (stateful_post isInit st header body generated) = counter_call (Inc (header_value header)) st \<or>
   fst (stateful_post isInit st header body generated) =
     st\<lparr> session_ids := session_ids st @ [generated],
         wirings := wirings st @ [fresh_wiring (binding_config st)] \<rparr> \<or>
   (\<exists>new. generated = Some new \<and> new \<noteq> [] \<and>
      fst (stateful_post isInit st header body generated) =
        counter_call (Inc new)
          (st\<lparr> session_ids := session_ids st @ [Some new],
               wirings := wirings st @ [fresh_wiring (binding_config st)],
               transports := js_set (transports st) new (length (session_ids st)) \<rparr>)) \<or>
   fst (stateful_post isInit st header body generated) = st"
  by (cases generated) (simp_all add: stateful_post_def Let_def)

lemma table_ok_post:
  assumes ok: "table_ok st"
  shows "table_ok (fst (stateful_post isInit st header body generated))"
proof -
  let ?ws = "wirings st @ [fresh_wiring (binding_config st)]"
  have created: "table_ok (st\<lparr> session_ids := session_ids st @ [generated], wirings := ?ws \<rparr>)"
    using table_ok_created[OF ok, of generated] by simp
  have registered: "table_ok (counter_call (Inc new)
      (st\<lparr> session_ids := session_ids st @ [Some new], wirings := ?ws,
           transports := js_set (transports st) new (length (session_ids st)) \<rparr>))"
    if "new \<noteq> []" for new
    using table_ok_registered[OF ok that] by (intro table_ok_counter_call) (simp add: table_ok_wired)
  from stateful_post_cases[of isInit st header body generated]
    table_ok_counter_call[OF ok] created registered ok
  show ?thesis by (elim disjE exE conjE) simp_all
qed

lemma table_ok_session_request: "table_ok st \<Longrightarrow> table_ok (fst (handleSessionRequest st header))"
  by (simp add: handleSessionRequest_def Let_def table_ok_counter_call)

lemma table_ok_step: "table_ok st \<Longrightarrow> table_ok (stateful_step isInit parse st e)"
  by (cases e)
     (simp_all add: table_ok_post table_ok_session_request table_ok_counter_call
        table_ok_onExpire table_ok_close transport_onerror_eq transport_close_def
        split: option.splits)

lemma table_ok_start: "table_ok (stateful_start config ms)"
  by (simp add: table_ok_def stateful_start_def)

lemma table_ok_foldl: "table_ok st \<Longrightarrow> table_ok (foldl (stateful_step isInit parse) st es)"
  by (induction es arbitrary: st) (auto simp: table_ok_step)

lemma table_ok_run: "table_ok (stateful_run isInit parse config ms es)"
  unfolding stateful_run_def by (rule table_ok_foldl[OF table_ok_start])


lemma counter_entries_clear:
  "counter_entries (st\<lparr> counter_calls := counter_calls st @ [Clear sid fire] \<rparr>) sid = None"
  by (simp add: counter_entries_def)


lemma no_entry_for_transport:
  assumes "\<And>k. (k, t) \<notin> set tbl"
  shows "t \<notin> snd ` set tbl"
  using assms by force

text \<open>
  C3. In any state the binding can reach, when the transport of a session in the table
  reports close or error: the session's entry is removed and no entry names the
  transport any more, the transport's child is killed, \<^verbatim>\<open>onExpire\<close> is not run, the only
  call on the session counter (when there is one) is \<^verbatim>\<open>clear(id, false, ...)\<close>, after
  which the counter has no entry for the session; and no entry of the table then names
  a transport that has reported close or error.
\<close>

theorem transport_close_or_error_removes_session:
  assumes run: "st = stateful_run isInit parse config ms events"
    and entry: "map_of (transports st) sid = Some t"
    and e: "e = TransportClosed t \<or> e = TransportError t"
    and st': "st' = stateful_step isInit parse st e"
  shows "map_of (transports st') sid = None \<and> t \<notin> snd ` set (transports st') \<and>
         t \<in> set (killed st') \<and> t \<in> set (reported st') \<and> expired st' = expired st \<and>
         counter_calls st' =
           (if has_counter st then counter_calls st @ [Clear sid False] else counter_calls st) \<and>
         counter_entries st' sid = None \<and>
         list_all (\<lambda>(k, t'). t' \<notin> set (reported st')) (transports st')"
proof -
  have ok: "table_ok st" unfolding run by (rule table_ok_run)
  note f = table_ok_lookup[OF ok entry]
  have step: "st' = (transport_onclose t st)\<lparr> reported := reported st @ [t] \<rparr>"
    using e st' f(4) by (auto simp: transport_onerror_eq)
  have ok': "table_ok st'" unfolding step by (rule table_ok_close[OF ok f(4)])
  have tr: "transports st' = js_delete (transports st) sid"
    using f by (simp add: step onclose_transports)
  have calls: "counter_calls st' =
      (if has_counter st then counter_calls st @ [Clear sid False] else counter_calls st)"
    using f by (simp add: step onclose_counter_calls)
  have gone: "(k, t) \<notin> set (transports st')" for k
  proof
    assume "(k, t) \<in> set (transports st')"
    from table_ok_entry(3)[OF ok' this] show False by (simp add: step)
  qed
  have entries: "counter_entries st' sid = None"
  proof (cases "has_counter st")
    case True
    have "counter_entries st' = counter_entries (st\<lparr> counter_calls := counter_calls st @ [Clear sid False] \<rparr>)"
      using calls True by (simp add: counter_entries_def step)
    then show ?thesis by (simp add: counter_entries_clear)
  next
    case False
    with table_ok_calls[OF ok] calls have "counter_calls st' = []" by simp
    then show ?thesis by (simp add: counter_entries_def)
  qed
  have inv: "list_all (\<lambda>(k, t'). t' \<notin> set (reported st')) (transports st')"
    using table_ok_entry(3)[OF ok'] by (auto simp: list_all_iff)
  show ?thesis
    using tr calls entries inv no_entry_for_transport[of t "transports st'", OF gone]
    by (simp add: map_of_js_delete step)
qed

theorem transport_close_or_error_removes_session_witness:
  "transports (stateful_run has_initialize_method (\<lambda>line. None) echo_binding (Some 250)
      [Post None initialize_request (Some ''7f0c'')]) = [(''7f0c'', 0)] \<and>
   transports (stateful_run has_initialize_method (\<lambda>line. None) echo_binding (Some 250)
      [Post None initialize_request (Some ''7f0c''), TransportClosed 0]) = [] \<and>
   killed (stateful_run has_initialize_method (\<lambda>line. None) echo_binding (Some 250)
      [Post None initialize_request (Some ''7f0c''), TransportError 0]) = [0] \<and>
   counter_calls (stateful_run has_initialize_method (\<lambda>line. None) echo_binding (Some 250)
      [Post None initialize_request (Some ''7f0c''), TransportClosed 0]) =
      [Inc ''7f0c'', Clear ''7f0c'' False]"
proof -
  let ?st = "stateful_run has_initialize_method (\<lambda>line. None) echo_binding (Some 250) [Post None initialize_request (Some ''7f0c'')]"
  have st: "?st = \<lparr> binding_config = echo_binding, session_timeout = Some 250,
      transports = [(''7f0c'', 0)], session_ids = [Some ''7f0c''],
      wirings = [fresh_wiring echo_binding], counter_calls = [Inc ''7f0c''], killed = [],
      reported = [], expired = [] \<rparr>"
    by (simp add: stateful_run_def stateful_start_def stateful_post_def header_value_def
        has_initialize_method_def initialize_request_def js_set_def counter_call_def
        has_counter_def Let_def)
  have entry: "map_of (transports ?st) ''7f0c'' = Some 0" by (simp add: st)
  have closed: "stateful_run has_initialize_method (\<lambda>line. None) echo_binding (Some 250)
      [Post None initialize_request (Some ''7f0c''), TransportClosed 0] =
      stateful_step has_initialize_method (\<lambda>line. None) ?st (TransportClosed 0)"
    by (simp add: stateful_run_def)
  have errored: "stateful_run has_initialize_method (\<lambda>line. None) echo_binding (Some 250)
      [Post None initialize_request (Some ''7f0c''), TransportError 0] =
      stateful_step has_initialize_method (\<lambda>line. None) ?st (TransportError 0)"
    by (simp add: stateful_run_def)
  from transport_close_or_error_removes_session[OF refl entry _ closed]
       transport_close_or_error_removes_session[OF refl entry _ errored]
  show ?thesis
    unfolding closed errored
    by (simp add: st transport_onclose_def transport_onerror_def transport_sessionId_def
        counter_call_def has_counter_def js_delete_def Let_def)
qed


lemma wirings_post:
  "wirings (fst (stateful_post isInit st header body generated)) =
     (if (header_value header = [] \<or> js_get (transports st) (header_value header) = Missing) \<and>
         header_value header = [] \<and> isInit body
      then wirings st @ [fresh_wiring (binding_config st)] else wirings st)"
  by (cases generated) (simp_all add: stateful_post_def Let_def)

lemma session_ids_post:
  "session_ids (fst (stateful_post isInit st header body generated)) =
     (if (header_value header = [] \<or> js_get (transports st) (header_value header) = Missing) \<and>
         header_value header = [] \<and> isInit body
      then session_ids st @ [generated] else session_ids st)"
  by (cases generated) (simp_all add: stateful_post_def Let_def)

lemma wirings_onExpire:
  "wirings (onExpire sid st) = wirings st" "session_ids (onExpire sid st) = session_ids st"
  by (simp_all add: onExpire_def transport_close_def Let_def split: lookup.splits)

lemma wirings_step:
  assumes "length (wirings st) = length (session_ids st)"
  shows "length (wirings (stateful_step isInit parse st e)) =
         length (session_ids (stateful_step isInit parse st e))"
  using assms
  by (cases e)
     (simp_all add: wirings_post session_ids_post wirings_onExpire handleSessionRequest_def
        transport_onerror_eq transport_close_def on_wiring_def Let_def split: option.splits)

lemma wirings_foldl:
  "length (wirings st) = length (session_ids st) \<Longrightarrow>
   length (wirings (foldl (stateful_step isInit parse) st es)) =
   length (session_ids (foldl (stateful_step isInit parse) st es))"
  by (induction es arbitrary: st) (simp_all add: wirings_step)

text \<open>In every state a binding can reach, each transport created has its wiring.\<close>

lemma wirings_run:
  "length (wirings (stateful_run isInit parse config ms es)) =
   length (session_ids (stateful_run isInit parse config ms es))"
  unfolding stateful_run_def by (rule wirings_foldl) (simp add: stateful_start_def)





end
